theory Spec2Isabelle
  imports Complex_Main
begin

section \<open>Numbers of the program\<close>

text \<open>
  Every number of the program is a JavaScript number. The model takes the finite ones as
  exact reals (rounding of the binary representation is not modelled) and keeps the one
  non-number the program can produce from finite inputs: \<open>NaN\<close>, the result of
  arithmetic on \<open>undefined\<close>, which an array read past the end returns. Arithmetic on
  \<open>NaN\<close> gives \<open>NaN\<close>, every comparison with \<open>NaN\<close> is false, and
  \<open>Math.max\<close> and \<open>Math.min\<close> return \<open>NaN\<close> when an argument is \<open>NaN\<close>.
  Only the quantities that a \<open>NaN\<close> can reach have type \<open>jsnum\<close>; the others are
  \<open>real\<close>.
\<close>

datatype jsnum = Num real | NaN

instantiation jsnum :: "{zero, plus, minus, times, abs, sgn}"
begin

definition zero_jsnum :: jsnum where
  "zero_jsnum = Num 0"

fun plus_jsnum :: "jsnum \<Rightarrow> jsnum \<Rightarrow> jsnum" where
  "plus_jsnum (Num a) (Num b) = Num (a + b)"
| "plus_jsnum _ _ = NaN"

fun minus_jsnum :: "jsnum \<Rightarrow> jsnum \<Rightarrow> jsnum" where
  "minus_jsnum (Num a) (Num b) = Num (a - b)"
| "minus_jsnum _ _ = NaN"

fun times_jsnum :: "jsnum \<Rightarrow> jsnum \<Rightarrow> jsnum" where
  "times_jsnum (Num a) (Num b) = Num (a * b)"
| "times_jsnum _ _ = NaN"

fun abs_jsnum :: "jsnum \<Rightarrow> jsnum" where
  "abs_jsnum (Num a) = Num \<bar>a\<bar>"
| "abs_jsnum NaN = NaN"

fun sgn_jsnum :: "jsnum \<Rightarrow> jsnum" where
  "sgn_jsnum (Num a) = Num (sgn a)"
| "sgn_jsnum NaN = NaN"

instance ..

end

text \<open>
  Division. No division of the program has a zero divisor: the fit replaces a zero
  denominator by 1 and divides by the length of a list it has just pushed to, the
  average divides by a length it has tested to be positive, and the paddle's half width
  is 120. JavaScript's quotient by zero is an infinity or \<open>NaN\<close>; the model, which has no
  infinities, writes \<open>NaN\<close> there.
\<close>

fun jdiv :: "jsnum \<Rightarrow> jsnum \<Rightarrow> jsnum" where
  "jdiv (Num a) (Num b) = (if b = 0 then NaN else Num (a / b))"
| "jdiv _ _ = NaN"

fun jle :: "jsnum \<Rightarrow> jsnum \<Rightarrow> bool" where
  "jle (Num a) (Num b) = (a \<le> b)"
| "jle _ _ = False"

fun jgt :: "jsnum \<Rightarrow> jsnum \<Rightarrow> bool" where
  "jgt (Num a) (Num b) = (a > b)"
| "jgt _ _ = False"

fun jmax :: "jsnum \<Rightarrow> jsnum \<Rightarrow> jsnum" where
  "jmax (Num a) (Num b) = Num (max a b)"
| "jmax _ _ = NaN"

fun jmin :: "jsnum \<Rightarrow> jsnum \<Rightarrow> jsnum" where
  "jmin (Num a) (Num b) = Num (min a b)"
| "jmin _ _ = NaN"

text \<open>\<open>x || 1\<close> on a number: 0 and \<open>NaN\<close> are falsy.\<close>

fun or_one :: "jsnum \<Rightarrow> jsnum" where
  "or_one (Num a) = (if a = 0 then Num 1 else Num a)"
| "or_one NaN = Num 1"

text \<open>\<open>xs[i]\<close> used as a number: a read past the end is \<open>undefined\<close>, a \<open>NaN\<close> in arithmetic.\<close>

definition js_nth :: "real list \<Rightarrow> nat \<Rightarrow> jsnum" where
  "js_nth xs i = (if i < length xs then Num (xs ! i) else NaN)"

text \<open>\<open>Math.round\<close>: the nearest integer, a half rounded up.\<close>

definition js_round :: "real \<Rightarrow> real" where
  "js_round x = of_int \<lfloor>x + 1 / 2\<rfloor>"

text \<open>
  Truthiness of a timestamp holder (\<open>number | null\<close>): \<open>null\<close> and 0 are falsy.
\<close>

fun truthy :: "real option \<Rightarrow> bool" where
  "truthy None = False"
| "truthy (Some t) = (t \<noteq> 0)"


section \<open>The game canvas\<close>

subsection \<open>Data\<close>

datatype metric = Latency_ms | Accuracy_px | Drift_px

record trial =
  game_tag :: string
  metric_name :: metric
  trial_value :: jsnum
  unit_str :: string

record ball =
  ball_x :: real
  ball_y :: real
  ball_vx :: real
  ball_vy :: real

record keys =
  key_left :: bool
  key_right :: bool

text \<open>
  The refs of the component, one field each. The paddle object's \<open>y\<close>, \<open>w\<close>, \<open>h\<close> and
  \<open>speed\<close> and the ball's \<open>r\<close> are computed once and never assigned again: they are
  constants below, and the state holds the fields that change. \<open>useGaze\<close> is the prop
  as the running frame loop has captured it (the render effect creates the loop, and
  runs again when the prop changes). \<open>calibPending\<close> holds the calibration callbacks
  that \<open>setTimeout\<close> has been given and that have not completed, oldest first, each
  with the index it captured. \<open>canvasRef.current\<close> is set before any effect or listener
  runs and stays set while the component is mounted, so the \<open>if (!cvs) return\<close> guards
  are not taken and the model has no field for it.
\<close>

record game =
  paddle_x :: jsnum
  ball :: ball
  keys :: keys
  roundStartTs :: "real option"
  firstContactTs :: "real option"
  driftAcc :: jsnum
  lastPaddleX :: jsnum
  runningRef :: bool
  calibratingRef :: bool
  calibIndexRef :: nat
  calibSamplesRef :: "jsnum list"
  calib :: "(jsnum \<times> jsnum) option"
  lostRef :: bool
  useGaze :: bool
  calibPending :: "nat list"

definition W :: real where
  "W = 800"

definition H :: real where
  "H = 500"

definition paddle_y :: real where
  "paddle_y = H - 22"

definition paddle_w :: real where
  "paddle_w = js_round (W * (30 / 100))"

definition paddle_h :: real where
  "paddle_h = max 12 (js_round (H * (35 / 1000)))"

definition paddle_speed :: real where
  "paddle_speed = max 6 (js_round (W * (12 / 1000)))"

definition ball_r :: real where
  "ball_r = max 6 (js_round (H * (25 / 1000)))"

definition calibTargets :: "real list" where
  "calibTargets = [15 / 100, 5 / 10, 85 / 100]"

definition initBall :: ball where
  "initBall =
     \<lparr>ball_x = W / 2,
      ball_y = js_round (H * (30 / 100)),
      ball_vx = W * (7 / 1000),
      ball_vy = H * (12 / 1000)\<rparr>"

text \<open>The state of a freshly mounted component, before its effects run.\<close>

definition initGame :: game where
  "initGame =
     \<lparr>paddle_x = Num (W / 2),
      ball = initBall,
      keys = \<lparr>key_left = False, key_right = False\<rparr>,
      roundStartTs = None,
      firstContactTs = None,
      driftAcc = Num 0,
      lastPaddleX = Num (W / 2),
      runningRef = False,
      calibratingRef = False,
      calibIndexRef = 0,
      calibSamplesRef = [],
      calib = None,
      lostRef = True,
      useGaze = True,
      calibPending = []\<rparr>"

subsection \<open>Round reset\<close>

text \<open>
  The three results of \<open>Math.random()\<close> that \<open>resetRound\<close> draws, in the order of the
  calls, each in \<open>[0, 1)\<close>; \<open>now\<close> is what \<open>performance.now()\<close> returns.
\<close>

record draws =
  draw_sign :: real
  draw_vx :: real
  draw_vy :: real

definition resetRound :: "draws \<Rightarrow> real \<Rightarrow> game \<Rightarrow> game" where
  "resetRound d now s =
     s\<lparr>ball :=
         \<lparr>ball_x = W / 2,
          ball_y = 120,
          ball_vx = (if draw_sign d < 1 / 2 then - 1 else 1) * (28 / 10 + draw_vx d * (12 / 10)),
          ball_vy = 36 / 10 + draw_vy d * (14 / 10)\<rparr>,
       roundStartTs := Some now,
       firstContactTs := None,
       driftAcc := Num 0,
       lastPaddleX := paddle_x s,
       runningRef := True\<rparr>"

subsection \<open>Calibration\<close>

text \<open>\<open>mapGazeX\<close>, with \<open>rect.left\<close> of the canvas as an argument.\<close>

definition mapGazeX :: "real \<Rightarrow> real \<Rightarrow> (jsnum \<times> jsnum) option \<Rightarrow> jsnum" where
  "mapGazeX gxViewport rectLeft c =
     (let rawCanvasX = gxViewport - rectLeft
      in case c of
           None \<Rightarrow> Num rawCanvasX
         | Some (a, b) \<Rightarrow> a * Num rawCanvasX + b)"

definition scheduleCalibSample :: "game \<Rightarrow> game" where
  "scheduleCalibSample s = s\<lparr>calibPending := calibPending s @ [calibIndexRef s]\<rparr>"

definition startCalibration :: "game \<Rightarrow> game" where
  "startCalibration s =
     scheduleCalibSample
       (s\<lparr>calibratingRef := True,
          calibIndexRef := 0,
          calibSamplesRef := [],
          runningRef := False\<rparr>)"

text \<open>
  The sampling loop of a callback reads \<open>smooth.current\<close> twelve times; \<open>readings\<close> are
  the values it read, in order. A reading that is not \<open>null\<close> adds its x, canvas-local.
\<close>

fun collectSamples :: "(real \<times> real) option list \<Rightarrow> real \<Rightarrow> real list" where
  "collectSamples [] rectLeft = []"
| "collectSamples (None # gs) rectLeft = collectSamples gs rectLeft"
| "collectSamples (Some g # gs) rectLeft = (fst g - rectLeft) # collectSamples gs rectLeft"

definition calibAverage :: "(real \<times> real) option list \<Rightarrow> real \<Rightarrow> nat \<Rightarrow> jsnum" where
  "calibAverage readings rectLeft idx =
     (let samples = collectSamples readings rectLeft
      in if length samples > 0
         then Num (foldl (\<lambda>a b. a + b) 0 samples / real (length samples))
         else js_nth calibTargets idx * Num W)"

text \<open>
  The linear fit at the end of a callback, over the samples collected so far.
  \<open>fitLinear\<close> is the fit in the exact arithmetic of \<open>jsnum\<close>; it agrees with the code
  where the code's double arithmetic is exact or yields \<open>NaN\<close>, as for the targets'
  own positions and for samples on round numbers. Where doubles round, as in the
  cancellation \<open>n * sxx - sx * sx\<close> on coincident samples that are not round numbers,
  the code's value differs. \<open>fitLinearOn\<close> below is the same code over an arithmetic
  given as a parameter, for statements that hold in the code's doubles too.
\<close>

definition fitLinear :: "jsnum list \<Rightarrow> jsnum \<times> jsnum" where
  "fitLinear screenXs =
     (let canvasXs = map (\<lambda>t. t * W) calibTargets;
          n = Num (real (length screenXs));
          sx = foldl (\<lambda>a b. a + b) (Num 0) screenXs;
          sy = Num (foldl (\<lambda>a b. a + b) 0 canvasXs);
          sxx = foldl (\<lambda>a b. a + b * b) (Num 0) screenXs;
          sxy = foldl (\<lambda>a (i, xi). a + xi * js_nth canvasXs i) (Num 0) (enumerate 0 screenXs);
          denom = or_one (n * sxx - sx * sx);
          a = jdiv (n * sxy - sx * sy) denom;
          b = jdiv (sy - a * sx) n
      in (a, b))"





text \<open>
  The completion of the oldest pending callback: the body of the function given to
  \<open>setTimeout\<close>, from the push of the average on (the code before it only waits and
  reads). Without a pending callback nothing runs.
\<close>

definition calibSampleDone :: "(real \<times> real) option list \<Rightarrow> real \<Rightarrow> game \<Rightarrow> game" where
  "calibSampleDone readings rectLeft s =
     (case calibPending s of
        [] \<Rightarrow> s
      | idx # rest \<Rightarrow>
          (let avg = calibAverage readings rectLeft idx;
               s1 = s\<lparr>calibPending := rest,
                       calibSamplesRef := calibSamplesRef s @ [avg],
                       calibIndexRef := calibIndexRef s + 1\<rparr>
           in if calibIndexRef s1 < length calibTargets
              then scheduleCalibSample s1
              else s1\<lparr>calib := Some (fitLinear (calibSamplesRef s1)),
                       calibratingRef := False\<rparr>))"

subsection \<open>Keyboard\<close>

definition down :: "string \<Rightarrow> draws \<Rightarrow> real \<Rightarrow> game \<Rightarrow> game" where
  "down key d now s =
     (let s1 = (if key = ''ArrowLeft'' then s\<lparr>keys := (keys s)\<lparr>key_left := True\<rparr>\<rparr> else s);
          s2 = (if key = ''ArrowRight'' then s1\<lparr>keys := (keys s1)\<lparr>key_right := True\<rparr>\<rparr> else s1);
          s3 = (if key = '' '' then resetRound d now s2 else s2)
      in if key = ''c'' \<or> key = ''C'' then startCalibration s3 else s3)"

definition up :: "string \<Rightarrow> game \<Rightarrow> game" where
  "up key s =
     (let s1 = (if key = ''ArrowLeft'' then s\<lparr>keys := (keys s)\<lparr>key_left := False\<rparr>\<rparr> else s)
      in if key = ''ArrowRight'' then s1\<lparr>keys := (keys s1)\<lparr>key_right := False\<rparr>\<rparr> else s1)"

subsection \<open>The frame loop\<close>

text \<open>
  What a frame reads from outside the component: the clock, the hook's smoothed sample
  and the canvas's \<open>rect.left\<close>.
\<close>

record frame_input =
  now :: real
  smooth :: "(real \<times> real) option"
  rectLeft :: real

definition clampX :: "jsnum \<Rightarrow> jsnum" where
  "clampX v = jmax (Num (paddle_w / 2)) (jmin (Num (W - paddle_w / 2)) v)"

definition gazeControl :: "real \<Rightarrow> real \<Rightarrow> game \<Rightarrow> game" where
  "gazeControl gx rl s =
     (if \<not> lostRef s then
        (let mappedX = mapGazeX gx rl (calib s);
             maxDelta = W * (1 / 10);
             targetXRaw = clampX mappedX;
             delta = targetXRaw - paddle_x s;
             clampedTargetX =
               (if jgt \<bar>delta\<bar> (Num maxDelta) then paddle_x s + sgn delta * Num maxDelta
                else targetXRaw);
             lerp = 42 / 100
         in s\<lparr>paddle_x := paddle_x s + (clampedTargetX - paddle_x s) * Num lerp\<rparr>)
      else s)"

definition keyboardControl :: "game \<Rightarrow> game" where
  "keyboardControl s =
     (let s1 = (if key_left (keys s) then s\<lparr>paddle_x := paddle_x s - Num paddle_speed\<rparr> else s);
          s2 = (if key_right (keys s1) then s1\<lparr>paddle_x := paddle_x s1 + Num paddle_speed\<rparr> else s1)
      in s2\<lparr>paddle_x := clampX (paddle_x s2)\<rparr>)"

definition controlPaddle :: "frame_input \<Rightarrow> game \<Rightarrow> game" where
  "controlPaddle inp s =
     (case smooth inp of
        Some g \<Rightarrow> if useGaze s then gazeControl (fst g) (rectLeft inp) s else keyboardControl s
      | None \<Rightarrow> keyboardControl s)"

definition accumulateDrift :: "game \<Rightarrow> game" where
  "accumulateDrift s =
     s\<lparr>driftAcc := driftAcc s + \<bar>paddle_x s - lastPaddleX s\<bar>,
       lastPaddleX := paddle_x s\<rparr>"

definition ballPhysics :: "game \<Rightarrow> game" where
  "ballPhysics s =
     (let b = ball s;
          b1 = b\<lparr>ball_x := ball_x b + ball_vx b, ball_y := ball_y b + ball_vy b\<rparr>;
          b2 = (if ball_x b1 - ball_r \<le> 0 \<or> ball_x b1 + ball_r \<ge> W
                then b1\<lparr>ball_vx := ball_vx b1 * (- 1)\<rparr> else b1);
          b3 = (if ball_y b2 - ball_r \<le> 0 then b2\<lparr>ball_vy := ball_vy b2 * (- 1)\<rparr> else b2)
      in s\<lparr>ball := b3\<rparr>)"

text \<open>The test \<open>hit\<close> of the frame loop, on the state after the ball has moved.\<close>

definition hit :: "game \<Rightarrow> bool" where
  "hit s =
     (let pTop = paddle_y - paddle_h / 2;
          pLeft = paddle_x s - Num (paddle_w / 2);
          pRight = paddle_x s + Num (paddle_w / 2)
      in ball_y (ball s) + ball_r \<ge> pTop \<and>
         jle pLeft (Num (ball_x (ball s))) \<and>
         jle (Num (ball_x (ball s))) pRight \<and>
         ball_vy (ball s) > 0)"

definition mkTrial :: "metric \<Rightarrow> jsnum \<Rightarrow> string \<Rightarrow> trial" where
  "mkTrial m v u = \<lparr>game_tag = ''paddle'', metric_name = m, trial_value = v, unit_str = u\<rparr>"

text \<open>
  The first-contact block: \<open>if (!firstContactTs.current && roundStartTs.current)\<close>,
  both tests by truthiness.
\<close>

definition firstContact :: "real \<Rightarrow> game \<Rightarrow> game \<times> trial list" where
  "firstContact t s =
     (case roundStartTs s of
        None \<Rightarrow> (s, [])
      | Some t0 \<Rightarrow>
          if \<not> truthy (firstContactTs s) \<and> truthy (Some t0)
          then (s\<lparr>firstContactTs := Some t\<rparr>,
                [mkTrial Latency_ms (Num (t - t0)) ''ms'',
                 mkTrial Accuracy_px \<bar>Num (ball_x (ball s)) - paddle_x s\<bar> ''px''])
          else (s, []))"

text \<open>
  The block \<open>if (hit) { ... }\<close>. A hit needs the comparisons with the paddle's edges to
  hold, so the paddle's x is a number there, and the offset is one too.
\<close>

definition paddleHit :: "real \<Rightarrow> game \<Rightarrow> game \<times> trial list" where
  "paddleHit t s =
     (if hit s then
        (case paddle_x s of
           NaN \<Rightarrow> (s, [])
         | Num x \<Rightarrow>
             (let (s1, out) = firstContact t s;
                  b = ball s1;
                  offset = (ball_x b - x) / (paddle_w / 2)
              in (s1\<lparr>ball := b\<lparr>ball_vy := ball_vy b * (- 1),
                                ball_vx := ball_vx b + offset * (115 / 100)\<rparr>\<rparr>, out)))
      else (s, []))"

definition roundEnd :: "game \<Rightarrow> game \<times> trial list" where
  "roundEnd s =
     (if ball_y (ball s) - ball_r > H \<and> runningRef s
      then (s\<lparr>runningRef := False\<rparr>, [mkTrial Drift_px (driftAcc s) ''px''])
      else (s, []))"

text \<open>
  One run of \<open>tick\<close>: the new state and the trials given to \<open>onTrial\<close>, in order. Drawing
  changes no state and is left out. \<open>moved\<close> is the part of a frame before the tests:
  paddle control, drift accumulation and ball physics.
\<close>

definition moved :: "frame_input \<Rightarrow> game \<Rightarrow> game" where
  "moved inp s = ballPhysics (accumulateDrift (controlPaddle inp s))"

definition tick :: "frame_input \<Rightarrow> game \<Rightarrow> game \<times> trial list" where
  "tick inp s =
     (if calibratingRef s then (s, [])
      else
        (let s1 = moved inp s;
             (s2, out1) = paddleHit (now inp) s1;
             (s3, out2) = roundEnd s2
         in (s3, out1 @ out2)))"

subsection \<open>Events\<close>

text \<open>
  Everything that runs code of the component while it is mounted: a run of the render
  effect (on mount, and again when \<open>sessionId\<close>, \<open>useGaze\<close> or \<open>ready\<close> changes) with the
  current \<open>useGaze\<close> prop; a key going down or up; the effect that copies the hook's
  \<open>lost\<close> flag; the completion of a calibration callback; an animation frame.
\<close>

datatype event =
  Effect bool draws real
| KeyDown string draws real
| KeyUp string
| LostSync bool
| CalibDone "(real \<times> real) option list" real
| Frame frame_input

fun handle :: "event \<Rightarrow> game \<Rightarrow> game \<times> trial list" where
  "handle (Effect ug d t) s = (resetRound d t (s\<lparr>useGaze := ug\<rparr>), [])"
| "handle (KeyDown key d t) s = (down key d t s, [])"
| "handle (KeyUp key) s = (up key s, [])"
| "handle (LostSync l) s = (s\<lparr>lostRef := l\<rparr>, [])"
| "handle (CalibDone readings rl) s = (calibSampleDone readings rl s, [])"
| "handle (Frame inp) s = tick inp s"

fun run :: "event list \<Rightarrow> game \<Rightarrow> game \<times> trial list" where
  "run [] s = (s, [])"
| "run (e # es) s =
     (let (s1, out1) = handle e s;
          (s2, out2) = run es s1
      in (s2, out1 @ out2))"


subsection \<open>Observations on traces\<close>

text \<open>
  The events that call \<open>resetRound\<close>: a run of the render effect, and the Space key
  going down.
\<close>

fun is_reset :: "event \<Rightarrow> bool" where
  "is_reset (Effect ug d t) = True"
| "is_reset (KeyDown key d t) = (key = '' '')"
| "is_reset _ = False"

definition no_reset :: "event list \<Rightarrow> bool" where
  "no_reset evs = list_all (\<lambda>e. \<not> is_reset e) evs"

text \<open>The trials of a metric, and the two contact metrics together, in an output.\<close>

definition trials_of :: "metric \<Rightarrow> trial list \<Rightarrow> trial list" where
  "trials_of m out = filter (\<lambda>tr. metric_name tr = m) out"

definition contact_trials :: "trial list \<Rightarrow> trial list" where
  "contact_trials out =
     filter (\<lambda>tr. metric_name tr = Latency_ms \<or> metric_name tr = Accuracy_px) out"

text \<open>
  A frame detects a collision when it runs the simulation (it is not the calibration
  overlay) and \<open>hit\<close> holds after the ball has moved.
\<close>

fun detected :: "event \<Rightarrow> game \<Rightarrow> bool" where
  "detected (Frame inp) s = (\<not> calibratingRef s \<and> hit (moved inp s))"
| "detected _ s = False"

fun no_detection :: "event list \<Rightarrow> game \<Rightarrow> bool" where
  "no_detection [] s = True"
| "no_detection (e # es) s = (\<not> detected e s \<and> no_detection es (fst (handle e s)))"

text \<open>
  The absolute displacement of the paddle's x in each frame that runs the simulation,
  in order, along a trace; and their sum.
\<close>

fun frame_displacement :: "event \<Rightarrow> game \<Rightarrow> jsnum list" where
  "frame_displacement (Frame inp) s =
     (if calibratingRef s then [] else [\<bar>paddle_x (fst (tick inp s)) - paddle_x s\<bar>])"
| "frame_displacement _ s = []"

fun frame_displacements :: "event list \<Rightarrow> game \<Rightarrow> jsnum list" where
  "frame_displacements [] s = []"
| "frame_displacements (e # es) s =
     frame_displacement e s @ frame_displacements es (fst (handle e s))"

definition total_drift :: "jsnum list \<Rightarrow> jsnum" where
  "total_drift ds = foldl (\<lambda>a b. a + b) (Num 0) ds"

text \<open>
  The paddle's x lies in \<open>[paddle_w / 2, W - paddle_w / 2]\<close>; a calibration is absent
  or has numbers for coefficients.
\<close>

definition in_bounds :: "jsnum \<Rightarrow> bool" where
  "in_bounds v = (jle (Num (paddle_w / 2)) v \<and> jle v (Num (W - paddle_w / 2)))"

fun calib_is_number :: "(jsnum \<times> jsnum) option \<Rightarrow> bool" where
  "calib_is_number None = True"
| "calib_is_number (Some (Num a, Num b)) = True"
| "calib_is_number (Some _) = False"


subsection \<open>An example round\<close>

text \<open>
  A round to evaluate the theorems on: the mount effect at clock 10 with draws that send
  the ball down and to the left (\<open>vx = -2.8\<close>, \<open>vy = 4.3\<close>), and frames that read no
  gaze sample, so that the keyboard moves the paddle. \<open>exState px k dr kl kr\<close> is the
  state of this round in which the ball has moved for \<open>k\<close> frames, the paddle is at
  \<open>px\<close>, the drift is \<open>dr\<close> and the arrow keys are \<open>kl\<close> and \<open>kr\<close>. \<open>exBelow\<close> is the
  state after 73 frames without a key and 11 frames with the left arrow held: the ball
  has missed the paddle and is falling past it.
\<close>

definition exDraws :: draws where
  "exDraws = \<lparr>draw_sign = 0, draw_vx = 0, draw_vy = 1 / 2\<rparr>"

definition exFrame :: frame_input where
  "exFrame = \<lparr>now = 2000, smooth = None, rectLeft = 0\<rparr>"

definition exStart :: game where
  "exStart = resetRound exDraws 10 initGame"

definition exState :: "real \<Rightarrow> nat \<Rightarrow> real \<Rightarrow> bool \<Rightarrow> bool \<Rightarrow> game" where
  "exState px k dr kl kr =
     exStart
       \<lparr>paddle_x := Num px,
        ball := \<lparr>ball_x = 400 - (14 / 5) * real k, ball_y = 120 + (43 / 10) * real k,
                 ball_vx = - (14 / 5), ball_vy = 43 / 10\<rparr>,
        keys := \<lparr>key_left = kl, key_right = kr\<rparr>,
        driftAcc := Num dr,
        lastPaddleX := Num px\<rparr>"

definition exBelow :: game where
  "exBelow = exState 290 84 110 True False"

text \<open>
  The same states in a round reset at clock \<open>t0\<close> and running or not: \<open>exState\<close> is
  \<open>exRound 10 True\<close>.
\<close>

definition exRound :: "real \<Rightarrow> bool \<Rightarrow> real \<Rightarrow> nat \<Rightarrow> real \<Rightarrow> bool \<Rightarrow> bool \<Rightarrow> game" where
  "exRound t0 rn px k dr kl kr =
     (exState px k dr kl kr)\<lparr>roundStartTs := Some t0, runningRef := rn\<rparr>"


section \<open>The gaze hook\<close>

text \<open>
  A coordinate as the engine delivers it: a finite number, or one that
  \<open>Number.isFinite\<close> rejects (\<open>NaN\<close> or an infinity).
\<close>

datatype coord = Finite real | NonFinite

record hook_opts =
  opt_ema :: "real option"
  opt_deadzone :: "real option"
  opt_lostMs :: "real option"

definition alpha_of :: "hook_opts \<Rightarrow> real" where
  "alpha_of opts = (case opt_ema opts of None \<Rightarrow> 6 / 10 | Some v \<Rightarrow> v)"

definition deadzone_of :: "hook_opts \<Rightarrow> real" where
  "deadzone_of opts = (case opt_deadzone opts of None \<Rightarrow> 12 | Some v \<Rightarrow> v)"

text \<open>The options the game canvas passes.\<close>

definition gameOpts :: hook_opts where
  "gameOpts = \<lparr>opt_ema = Some (6 / 10), opt_deadzone = Some 12, opt_lostMs = Some 180\<rparr>"

record hook =
  rawRef :: "(real \<times> real) option"
  smoothRef :: "(real \<times> real) option"
  lastTsRef :: real
  lost :: bool

text \<open>\<open>Math.hypot\<close> of two finite numbers.\<close>

definition hypot :: "real \<Rightarrow> real \<Rightarrow> real" where
  "hypot dx dy = sqrt (dx * dx + dy * dy)"

text \<open>The smoothing step of \<open>onGaze\<close> on a sample whose coordinates are finite.\<close>

definition smoothStep ::
  "real \<Rightarrow> real \<Rightarrow> real \<times> real \<Rightarrow> (real \<times> real) option \<Rightarrow> (real \<times> real) option" where
  "smoothStep alpha deadzone p prev =
     (case prev of
        None \<Rightarrow> Some p
      | Some q \<Rightarrow>
          (let dx = fst p - fst q; dy = snd p - snd q
           in if hypot dx dy \<ge> deadzone
              then Some (fst q + alpha * dx, snd q + alpha * dy)
              else prev))"

fun onGaze :: "hook_opts \<Rightarrow> real \<Rightarrow> (coord \<times> coord) option \<Rightarrow> hook \<Rightarrow> hook" where
  "onGaze opts t (Some (Finite x, Finite y)) st =
     st\<lparr>rawRef := Some (x, y),
        smoothRef := smoothStep (alpha_of opts) (deadzone_of opts) (x, y) (smoothRef st),
        lastTsRef := t,
        lost := False\<rparr>"
| "onGaze opts t _ st = st\<lparr>rawRef := None\<rparr>"


section \<open>The session dashboard\<close>

subsection \<open>Data\<close>

text \<open>
  A session id is a number the backend assigns; \<open>null\<close> and a missing field are
  \<open>None\<close>. \<open>!sessionId\<close> holds for \<open>None\<close> and for 0.
\<close>

fun no_session :: "int option \<Rightarrow> bool" where
  "no_session None = True"
| "no_session (Some i) = (i = 0)"

record metrics =
  latency_ms :: "real option"
  drift_px :: "real option"
  accuracy_px :: "real option"

record result =
  severity :: "real option"
  res_metrics :: "metrics option"

text \<open>
  The status message: a literal of the source, or one of its templates with the values
  it formats (the printing of numbers is not modelled): \<open>Session ${id} started\<close>, the
  rounded one-line summary of the metrics, and \<open>Severity ${severity ?? "-"}\<close>.
\<close>

datatype message =
  Text string
| SessionStarted "int option"
| ScoreSummary "real option" "real option" "real option"
| SeverityOnly "real option"

record page =
  sessionId :: "int option"
  message :: message
  result :: "result option"
  page_useGaze :: bool

definition initPage :: page where
  "initPage = \<lparr>sessionId = None, message = Text [], result = None, page_useGaze = True\<rparr>"

text \<open>
  The two holders of a round. They are plain objects made by a render of the page, and
  the \<open>submitTrial\<close> of that render closes over them; the game canvas keeps calling the
  \<open>submitTrial\<close> it was given when its render effect last ran.
\<close>

record holders =
  lastLatency :: "jsnum option"
  lastAccuracy :: "jsnum option"

text \<open>
  A call of \<open>fetch\<close>: the method, the path below the backend's address and what is
  sent. The paths are \<open>/session/start\<close>, \<open>/session/${id}/trials\<close> and
  \<open>/session/${id}/score\<close>.
\<close>

datatype path = StartPath | TrialsPath int | ScorePath int

record trial_body =
  latency :: jsnum
  accuracy :: jsnum
  drift :: jsnum

datatype payload = NoBody | FormMetadata string | JsonTrials "trial_body list"

record request =
  req_method :: string
  req_path :: path
  req_body :: payload

text \<open>
  What the backend's score response holds, once parsed, and a response: its \<open>ok\<close> flag
  and its parsed body, \<open>None\<close> when \<open>res.json()\<close> rejects or the body has no fields to
  read.
\<close>

record score_data =
  d_severity :: "real option"
  d_score :: "real option"
  d_metrics :: "metrics option"
  d_avg_latency :: "real option"
  d_avg_drift :: "real option"
  d_avg_accuracy :: "real option"

record response =
  ok :: bool
  body :: "score_data option"

subsection \<open>Operations\<close>

text \<open>
  \<open>startSession\<close>. The outcome of the request is \<open>None\<close> when \<open>fetch\<close> or the parsing
  rejects, and the \<open>session_id\<close> field of the response otherwise.
\<close>

definition startSession :: "int option option \<Rightarrow> page \<Rightarrow> page \<times> request list" where
  "startSession outcome pg =
     (let req = \<lparr>req_method = ''POST'', req_path = StartPath, req_body = FormMetadata ''web-demo''\<rparr>
      in case outcome of
           None \<Rightarrow> (pg\<lparr>message := Text ''Backend error starting session''\<rparr>, [req])
         | Some sid \<Rightarrow>
             (pg\<lparr>sessionId := sid, message := SessionStarted sid, result := None\<rparr>, [req]))"

text \<open>
  \<open>submitTrial\<close>, on the page and the holders it closes over; \<open>resolves\<close> says whether
  the \<open>fetch\<close> of a drift trial resolves. The result lists the calls of \<open>fetch\<close>.
\<close>

definition submitTrial ::
  "trial \<Rightarrow> bool \<Rightarrow> page \<times> holders \<Rightarrow> (page \<times> holders) \<times> request list" where
  "submitTrial tr resolves ph =
     (let pg = fst ph; h = snd ph
      in case sessionId pg of
           None \<Rightarrow> ((pg\<lparr>message := Text ''Start a session first''\<rparr>, h), [])
         | Some sid \<Rightarrow>
             if sid = 0 then ((pg\<lparr>message := Text ''Start a session first''\<rparr>, h), [])
             else
               (case metric_name tr of
                  Latency_ms \<Rightarrow> ((pg, h\<lparr>lastLatency := Some (trial_value tr)\<rparr>), [])
                | Accuracy_px \<Rightarrow> ((pg, h\<lparr>lastAccuracy := Some (trial_value tr)\<rparr>), [])
                | Drift_px \<Rightarrow>
                    (let b = \<lparr>latency = (case lastLatency h of None \<Rightarrow> Num 300 | Some v \<Rightarrow> v),
                              accuracy = (case lastAccuracy h of None \<Rightarrow> Num 80 | Some v \<Rightarrow> v),
                              drift = trial_value tr\<rparr>;
                         h1 = h\<lparr>lastLatency := None, lastAccuracy := None\<rparr>;
                         req = \<lparr>req_method = ''POST'', req_path = TrialsPath sid,
                                req_body = JsonTrials [b]\<rparr>
                     in if resolves then ((pg, h1), [req])
                        else ((pg\<lparr>message := Text ''Error saving trial''\<rparr>, h1), [req]))))"

text \<open>The part of \<open>computeScore\<close> after the response has been chosen.\<close>

definition readScore :: "response \<Rightarrow> page \<Rightarrow> page" where
  "readScore res pg =
     (case body res of
        None \<Rightarrow> pg\<lparr>message := Text ''Error computing score''\<rparr>
      | Some d \<Rightarrow>
          (let sev = (case d_severity d of Some v \<Rightarrow> Some v | None \<Rightarrow> d_score d);
               ms = (case d_metrics d of
                       Some m \<Rightarrow> Some m
                     | None \<Rightarrow>
                         (case d_avg_latency d of
                            Some l \<Rightarrow>
                              Some \<lparr>latency_ms = Some l, drift_px = d_avg_drift d,
                                    accuracy_px = d_avg_accuracy d\<rparr>
                          | None \<Rightarrow> None))
           in pg\<lparr>result := Some \<lparr>severity = sev, res_metrics = ms\<rparr>,
                 message :=
                   (case ms of
                      Some m \<Rightarrow> ScoreSummary (latency_ms m) (drift_px m) (accuracy_px m)
                    | None \<Rightarrow> SeverityOnly sev)\<rparr>))"

text \<open>
  \<open>computeScore\<close>. \<open>post\<close> and \<open>get\<close> are what the two calls of \<open>fetch\<close> would give,
  \<open>None\<close> for a rejected promise; the second is only looked at when the call is made.
\<close>

definition computeScore ::
  "response option \<Rightarrow> response option \<Rightarrow> page \<Rightarrow> page \<times> request list" where
  "computeScore post get pg =
     (case sessionId pg of
        None \<Rightarrow> (pg\<lparr>message := Text ''Start a session first''\<rparr>, [])
      | Some sid \<Rightarrow>
          if sid = 0 then (pg\<lparr>message := Text ''Start a session first''\<rparr>, [])
          else
            (let postReq = \<lparr>req_method = ''POST'', req_path = ScorePath sid, req_body = NoBody\<rparr>;
                 getReq = \<lparr>req_method = ''GET'', req_path = ScorePath sid, req_body = NoBody\<rparr>;
                 tryPost = post
             in case (case tryPost of None \<Rightarrow> None | Some r \<Rightarrow> if ok r then Some r else None) of
                  Some res \<Rightarrow> (readScore res pg, [postReq])
                | None \<Rightarrow>
                    (case get of
                       None \<Rightarrow> (pg\<lparr>message := Text ''Error computing score''\<rparr>, [postReq, getReq])
                     | Some res \<Rightarrow> (readScore res pg, [postReq, getReq]))))"

text \<open>A sequence of calls of \<open>submitTrial\<close> on the same holders, with all the calls of \<open>fetch\<close>.\<close>

fun submitAll :: "(trial \<times> bool) list \<Rightarrow> page \<times> holders \<Rightarrow> (page \<times> holders) \<times> request list" where
  "submitAll [] ph = (ph, [])"
| "submitAll (c # cs) ph =
     (let (ph1, reqs1) = submitTrial (fst c) (snd c) ph;
          (ph2, reqs2) = submitAll cs ph1
      in (ph2, reqs1 @ reqs2))"

text \<open>The \<open>disabled\<close> attribute of the Compute Score button.\<close>

definition computeScoreDisabled :: "page \<Rightarrow> bool" where
  "computeScoreDisabled pg = no_session (sessionId pg)"


section \<open>The specification's wording, for comparison\<close>

text \<open>
  The collision test as the specification words it: the ball's bottom edge within the
  paddle's vertical band, and the ball's x within the paddle's horizontal span.
\<close>

definition in_vertical_band :: "game \<Rightarrow> bool" where
  "in_vertical_band s =
     (paddle_y - paddle_h / 2 \<le> ball_y (ball s) + ball_r \<and>
      ball_y (ball s) + ball_r \<le> paddle_y + paddle_h / 2)"

definition in_horizontal_span :: "game \<Rightarrow> bool" where
  "in_horizontal_span s =
     (jle (paddle_x s - Num (paddle_w / 2)) (Num (ball_x (ball s))) \<and>
      jle (Num (ball_x (ball s))) (paddle_x s + Num (paddle_w / 2)))"




section \<open>Constants\<close>

lemma paddle_w_eq: "paddle_w = 240"
  by (simp add: paddle_w_def W_def js_round_def)

lemma paddle_h_eq: "paddle_h = 18"
  by (simp add: paddle_h_def H_def js_round_def)

lemma paddle_speed_eq: "paddle_speed = 10"
  by (simp add: paddle_speed_def W_def js_round_def)

lemma ball_r_eq: "ball_r = 13"
  by (simp add: ball_r_def H_def js_round_def)

lemma paddle_y_eq: "paddle_y = 478"
  by (simp add: paddle_y_def H_def)

lemma canvasXs_eq: "map (\<lambda>t. t * W) calibTargets = [120, 400, 680]"
  by (simp add: calibTargets_def W_def)


section \<open>Calibration fit\<close>









section \<open>Calibration without a gaze sample\<close>

lemma collect_none: "\<forall>r \<in> set rs. r = None \<Longrightarrow> collectSamples rs rl = []"
  by (induction rs) auto

text \<open>
  C9. A calibration pass started with the key \<open>c\<close> while no earlier callback is pending,
  whose three callbacks read no gaze sample at all, records the targets' own positions
  120, 400 and 680 as samples and ends with the identity transform \<open>a = 1\<close>, \<open>b = 0\<close>,
  under which \<open>mapGazeX\<close> returns what it returns without a calibration.
\<close>

theorem no_gaze_calibration_is_identity:
  assumes "calibPending s = []"
    and "\<forall>r \<in> set (r1 @ r2 @ r3). r = None"
  shows "(let s' = fst (run [KeyDown ''c'' d t, CalibDone r1 l1, CalibDone r2 l2, CalibDone r3 l3] s)
          in calibSamplesRef s' = [Num 120, Num 400, Num 680] \<and>
             calib s' = Some (Num 1, Num 0) \<and>
             \<not> calibratingRef s' \<and>
             mapGazeX gx rl (calib s') = mapGazeX gx rl None)"
proof -
  have n1: "collectSamples r1 l1 = []" and n2: "collectSamples r2 l2 = []"
    and n3: "collectSamples r3 l3 = []"
    using assms(2) by (simp_all add: collect_none)
  have fit: "fitLinear [Num 120, Num 400, Num 680] = (Num 1, Num 0)"
    by (simp add: fitLinear_def canvasXs_eq js_nth_def Let_def)
  have pass: "mapGazeX gx rl (Some (Num 1, Num 0)) = mapGazeX gx rl None"
    by (simp add: mapGazeX_def)
  show ?thesis
    using assms(1) n1 n2 n3
    by (simp add: down_def startCalibration_def scheduleCalibSample_def calibSampleDone_def
        calibAverage_def Let_def calibTargets_def js_nth_def W_def fit pass)
qed

theorem no_gaze_calibration_is_identity_witness:
  "calibPending initGame = [] \<and>
   calib (fst (run [KeyDown ''c'' \<lparr>draw_sign = 0, draw_vx = 0, draw_vy = 0\<rparr> 0,
                    CalibDone (replicate 12 None) 0, CalibDone (replicate 12 None) 0,
                    CalibDone (replicate 12 None) 0] initGame))
     = Some (Num 1, Num 0)"
proof -
  have p: "calibPending initGame = []"
    by (simp add: initGame_def)
  have n: "\<forall>r \<in> set (replicate 12 None @ replicate 12 None @ replicate 12 None). r = (None :: (real \<times> real) option)"
    by simp
  show ?thesis
    using p no_gaze_calibration_is_identity [OF p n, of "\<lparr>draw_sign = 0, draw_vx = 0, draw_vy = 0\<rparr>" 0 0 0 0 0 0]
    by (simp only: Let_def)
qed


section \<open>Gaze smoothing\<close>

lemma sqrt_25: "sqrt 25 = 5"
  by (rule real_sqrt_unique) simp_all

lemma sqrt_400: "sqrt 400 = 20"
  by (rule real_sqrt_unique) simp_all

text \<open>
  C6. On a sample with finite coordinates, \<open>onGaze\<close> seeds the smoothed sample with the
  raw one when there is none; otherwise it moves the smoothed sample by alpha times the
  delta on each axis when the Euclidean length of the delta is at least the deadzone,
  and leaves it as it is below the deadzone. With the options of the game canvas
  (alpha 0.6, deadzone 12) and the smoothed sample (100, 100), the raw sample (100, 105)
  leaves it at (100, 100) and the raw sample (100, 120) gives (100, 112).
\<close>

theorem gaze_smoothing:
  "smoothRef (onGaze opts t (Some (Finite x, Finite y)) st) =
     (case smoothRef st of
        None \<Rightarrow> Some (x, y)
      | Some (qx, qy) \<Rightarrow>
          if sqrt ((x - qx)\<^sup>2 + (y - qy)\<^sup>2) \<ge> deadzone_of opts
          then Some (qx + alpha_of opts * (x - qx), qy + alpha_of opts * (y - qy))
          else Some (qx, qy)) \<and>
   alpha_of gameOpts = 6 / 10 \<and> deadzone_of gameOpts = 12 \<and>
   smoothRef (onGaze gameOpts t (Some (Finite 100, Finite 105)) (st\<lparr>smoothRef := Some (100, 100)\<rparr>))
     = Some (100, 100) \<and>
   smoothRef (onGaze gameOpts t (Some (Finite 100, Finite 120)) (st\<lparr>smoothRef := Some (100, 100)\<rparr>))
     = Some (100, 112)"
proof -
  have gen: "smoothRef (onGaze opts t (Some (Finite x, Finite y)) st) =
     (case smoothRef st of
        None \<Rightarrow> Some (x, y)
      | Some (qx, qy) \<Rightarrow>
          if sqrt ((x - qx)\<^sup>2 + (y - qy)\<^sup>2) \<ge> deadzone_of opts
          then Some (qx + alpha_of opts * (x - qx), qy + alpha_of opts * (y - qy))
          else Some (qx, qy))"
    by (simp add: smoothStep_def hypot_def Let_def power2_eq_square
        split: option.splits prod.splits)
  have a: "alpha_of gameOpts = 6 / 10" and d: "deadzone_of gameOpts = 12"
    by (simp_all add: alpha_of_def deadzone_of_def gameOpts_def)
  have e1: "smoothRef (onGaze gameOpts t (Some (Finite 100, Finite 105))
              (st\<lparr>smoothRef := Some (100, 100)\<rparr>)) = Some (100, 100)"
    by (simp add: smoothStep_def hypot_def Let_def a d sqrt_25)
  have e2: "smoothRef (onGaze gameOpts t (Some (Finite 100, Finite 120))
              (st\<lparr>smoothRef := Some (100, 100)\<rparr>)) = Some (100, 112)"
    by (simp add: smoothStep_def hypot_def Let_def a d sqrt_400)
  show ?thesis using gen a d e1 e2 by blast
qed


section \<open>The dashboard\<close>

text \<open>
  What \<open>submitTrial\<close> does on its holders. With an active session it stores a latency
  or an accuracy trial in its holder and calls \<open>fetch\<close> not at all; on a drift trial it
  calls \<open>fetch\<close> once, a POST to the session's trials path whose body is the
  one-element array of the held latency (300 when the holder is empty), the held
  accuracy (80 when it is empty) and the incoming drift, and it empties both holders
  whether the call resolves or not. Latency 250, accuracy 40, drift 30 post
  \<open>[{250, 40, 30}]\<close>; drift 30 alone posts \<open>[{300, 80, 30}]\<close>. A holder is emptied by
  a drift trial only, not by a round reset.
\<close>

theorem submit_trial_buffers_and_posts:
  assumes "sessionId pg = Some sid" and "sid \<noteq> 0"
  shows "(metric_name tr = Latency_ms \<longrightarrow>
            submitTrial tr r (pg, h) = ((pg, h\<lparr>lastLatency := Some (trial_value tr)\<rparr>), [])) \<and>
         (metric_name tr = Accuracy_px \<longrightarrow>
            submitTrial tr r (pg, h) = ((pg, h\<lparr>lastAccuracy := Some (trial_value tr)\<rparr>), [])) \<and>
         (metric_name tr = Drift_px \<longrightarrow>
            snd (submitTrial tr r (pg, h)) =
              [\<lparr>req_method = ''POST'', req_path = TrialsPath sid,
                req_body = JsonTrials
                  [\<lparr>latency = (case lastLatency h of None \<Rightarrow> Num 300 | Some v \<Rightarrow> v),
                    accuracy = (case lastAccuracy h of None \<Rightarrow> Num 80 | Some v \<Rightarrow> v),
                    drift = trial_value tr\<rparr>]\<rparr>] \<and>
            snd (fst (submitTrial tr r (pg, h))) = \<lparr>lastLatency = None, lastAccuracy = None\<rparr>) \<and>
         snd (submitAll [(mkTrial Latency_ms (Num 250) ''ms'', r1),
                         (mkTrial Accuracy_px (Num 40) ''px'', r2),
                         (mkTrial Drift_px (Num 30) ''px'', r3)]
                (pg, \<lparr>lastLatency = None, lastAccuracy = None\<rparr>)) =
           [\<lparr>req_method = ''POST'', req_path = TrialsPath sid,
             req_body = JsonTrials [\<lparr>latency = Num 250, accuracy = Num 40, drift = Num 30\<rparr>]\<rparr>] \<and>
         snd (submitAll [(mkTrial Drift_px (Num 30) ''px'', r3)]
                (pg, \<lparr>lastLatency = None, lastAccuracy = None\<rparr>)) =
           [\<lparr>req_method = ''POST'', req_path = TrialsPath sid,
             req_body = JsonTrials [\<lparr>latency = Num 300, accuracy = Num 80, drift = Num 30\<rparr>]\<rparr>]"
  using assms
  by (simp add: submitTrial_def Let_def mkTrial_def)

theorem submit_trial_buffers_and_posts_witness:
  "sessionId (initPage\<lparr>sessionId := Some 7\<rparr>) = Some 7 \<and> (7 :: int) \<noteq> 0 \<and>
   snd (submitAll [(mkTrial Latency_ms (Num 250) ''ms'', True),
                   (mkTrial Accuracy_px (Num 40) ''px'', True),
                   (mkTrial Drift_px (Num 30) ''px'', False)]
          (initPage\<lparr>sessionId := Some 7\<rparr>, \<lparr>lastLatency = None, lastAccuracy = None\<rparr>)) =
     [\<lparr>req_method = ''POST'', req_path = TrialsPath 7,
       req_body = JsonTrials [\<lparr>latency = Num 250, accuracy = Num 40, drift = Num 30\<rparr>]\<rparr>]"
proof -
  have a: "sessionId (initPage\<lparr>sessionId := Some 7\<rparr>) = Some 7" by simp
  have b: "(7 :: int) \<noteq> 0" by simp
  show ?thesis
    using a b
      submit_trial_buffers_and_posts [OF a b, of "mkTrial Drift_px (Num 30) ''px''" True
        "\<lparr>lastLatency = None, lastAccuracy = None\<rparr>" True True False]
    by blast
qed

text \<open>
  C8. With an active session, \<open>computeScore\<close> first calls \<open>fetch\<close> with POST on the
  session's score path. It calls \<open>fetch\<close> with GET on the same path exactly when the
  POST rejects or its response is not \<open>ok\<close>, and then reads the result from the GET
  response; when the POST response is \<open>ok\<close> there is no GET and the result is read from
  the POST response.
\<close>

theorem compute_score_fallback:
  assumes "sessionId pg = Some sid" and "sid \<noteq> 0"
  shows "((case post of None \<Rightarrow> True | Some r \<Rightarrow> \<not> ok r) =
            (snd (computeScore post get pg) =
               [\<lparr>req_method = ''POST'', req_path = ScorePath sid, req_body = NoBody\<rparr>,
                \<lparr>req_method = ''GET'', req_path = ScorePath sid, req_body = NoBody\<rparr>])) \<and>
         ((case post of None \<Rightarrow> True | Some r \<Rightarrow> \<not> ok r) \<longrightarrow>
            fst (computeScore post get pg) =
              (case get of
                 None \<Rightarrow> pg\<lparr>message := Text ''Error computing score''\<rparr>
               | Some g \<Rightarrow> readScore g pg)) \<and>
         (\<forall>r. post = Some r \<and> ok r \<longrightarrow>
            computeScore post get pg =
              (readScore r pg,
               [\<lparr>req_method = ''POST'', req_path = ScorePath sid, req_body = NoBody\<rparr>]))"
  using assms
  by (auto simp add: computeScore_def Let_def split: option.splits)

text \<open>
  The theorem on a POST that answers 405 and a GET that answers with a severity.
\<close>

theorem compute_score_fallback_witness:
  "sessionId (initPage\<lparr>sessionId := Some 7\<rparr>) = Some 7 \<and> (7 :: int) \<noteq> 0 \<and>
   computeScore (Some \<lparr>ok = False, body = None\<rparr>)
     (Some \<lparr>ok = True,
            body = Some \<lparr>d_severity = Some 72, d_score = None, d_metrics = None,
                         d_avg_latency = None, d_avg_drift = None, d_avg_accuracy = None\<rparr>\<rparr>)
     (initPage\<lparr>sessionId := Some 7\<rparr>) =
   (initPage\<lparr>sessionId := Some 7,
              result := Some \<lparr>severity = Some 72, res_metrics = None\<rparr>,
              message := SeverityOnly (Some 72)\<rparr>,
    [\<lparr>req_method = ''POST'', req_path = ScorePath 7, req_body = NoBody\<rparr>,
     \<lparr>req_method = ''GET'', req_path = ScorePath 7, req_body = NoBody\<rparr>])"
proof -
  let ?pg = "initPage\<lparr>sessionId := Some 7\<rparr>"
  let ?post = "Some \<lparr>ok = False, body = None\<rparr>"
  let ?get = "Some \<lparr>ok = True,
            body = Some \<lparr>d_severity = Some 72, d_score = None, d_metrics = None,
                         d_avg_latency = None, d_avg_drift = None, d_avg_accuracy = None\<rparr>\<rparr>"
  have a: "sessionId ?pg = Some 7" by simp
  have b: "(7 :: int) \<noteq> 0" by simp
  have r: "readScore (the ?get) ?pg =
      initPage\<lparr>sessionId := Some 7,
              result := Some \<lparr>severity = Some 72, res_metrics = None\<rparr>,
              message := SeverityOnly (Some 72)\<rparr>"
    by (simp add: readScore_def initPage_def Let_def)
  have "snd (computeScore ?post ?get ?pg) =
               [\<lparr>req_method = ''POST'', req_path = ScorePath 7, req_body = NoBody\<rparr>,
                \<lparr>req_method = ''GET'', req_path = ScorePath 7, req_body = NoBody\<rparr>] \<and>
        fst (computeScore ?post ?get ?pg) = readScore (the ?get) ?pg"
    using compute_score_fallback [OF a b, of ?post ?get] by simp
  then show ?thesis
    using a b r by (simp add: prod_eq_iff)
qed

text \<open>
  C10. When the Start Session response carries the session id 0, the dashboard stores
  it, and every operation that tests the session id takes it for none: \<open>submitTrial\<close>
  and \<open>computeScore\<close> set the message "Start a session first" and call \<open>fetch\<close> not
  at all, exactly as they do on the same page without a session id, and the Compute
  Score button is disabled.
\<close>

theorem session_zero_is_no_session:
  "(let pg0 = fst (startSession (Some (Some 0)) pg); pgN = pg0\<lparr>sessionId := None\<rparr>
    in sessionId pg0 = Some 0 \<and>
       submitTrial tr r (pg0, h) = ((pg0\<lparr>message := Text ''Start a session first''\<rparr>, h), []) \<and>
       submitTrial tr r (pgN, h) = ((pgN\<lparr>message := Text ''Start a session first''\<rparr>, h), []) \<and>
       computeScore post get pg0 = (pg0\<lparr>message := Text ''Start a session first''\<rparr>, []) \<and>
       computeScore post get pgN = (pgN\<lparr>message := Text ''Start a session first''\<rparr>, []) \<and>
       computeScoreDisabled pg0 \<and> computeScoreDisabled pgN)"
  by (simp add: startSession_def submitTrial_def computeScore_def computeScoreDisabled_def Let_def)


section \<open>The paddle's bounds\<close>

lemma clampX_Num: "clampX (Num v) = Num (max 120 (min 680 v))"
  by (simp add: clampX_def paddle_w_eq W_def)

lemma in_bounds_Num: "in_bounds (Num v) = (120 \<le> v \<and> v \<le> 680)"
  by (simp add: in_bounds_def paddle_w_eq W_def)

lemma in_bounds_NaN: "\<not> in_bounds NaN"
  by (simp add: in_bounds_def)

lemma keyboard_in_bounds:
  "paddle_x s \<noteq> NaN \<Longrightarrow> in_bounds (paddle_x (keyboardControl s))"
  by (cases "paddle_x s") (simp_all add: keyboardControl_def Let_def clampX_Num in_bounds_Num)

lemma mapGazeX_number: "calib_is_number c \<Longrightarrow> \<exists>v. mapGazeX gx rl c = Num v"
  by (cases c rule: calib_is_number.cases) (simp_all add: mapGazeX_def)

lemma lerp_between:
  fixes x c :: real
  assumes "120 \<le> x" "x \<le> 680" "120 \<le> c" "c \<le> 680"
  shows "120 \<le> x + (c - x) * (42 / 100) \<and> x + (c - x) * (42 / 100) \<le> 680"
  using assms by argo

lemma gaze_in_bounds:
  assumes "in_bounds (paddle_x s)" and "calib_is_number (calib s)"
  shows "in_bounds (paddle_x (gazeControl gx rl s))"
proof -
  obtain x where x: "paddle_x s = Num x" "120 \<le> x" "x \<le> 680"
    using assms(1) by (cases "paddle_x s") (simp_all add: in_bounds_Num in_bounds_NaN)
  obtain v where v: "mapGazeX gx rl (calib s) = Num v"
    using mapGazeX_number [OF assms(2)] by blast
  define tgt where "tgt = max 120 (min 680 v)"
  have tgt: "120 \<le> tgt" "tgt \<le> 680" by (simp_all add: tgt_def)
  define c where "c = (if \<bar>tgt - x\<bar> > 80 then x + sgn (tgt - x) * 80 else tgt)"
  have c: "120 \<le> c" "c \<le> 680"
    using tgt x by (auto simp: c_def sgn_real_def)
  have "paddle_x (gazeControl gx rl s) =
          (if lostRef s then Num x else Num (x + (c - x) * (42 / 100)))"
    by (simp add: gazeControl_def Let_def v x clampX_Num W_def c_def tgt_def)
  then show ?thesis
    using lerp_between [OF x(2,3) c] x by (simp add: in_bounds_Num)
qed

lemma moved_paddle_x: "paddle_x (moved inp s) = paddle_x (controlPaddle inp s)"
  by (simp add: moved_def ballPhysics_def accumulateDrift_def Let_def)

lemma paddleHit_paddle_x: "paddle_x (fst (paddleHit t s)) = paddle_x s"
  by (simp add: paddleHit_def firstContact_def Let_def
      split: jsnum.splits option.splits prod.splits)

lemma roundEnd_paddle_x: "paddle_x (fst (roundEnd s)) = paddle_x s"
  by (simp add: roundEnd_def)

lemma tick_paddle_x:
  "paddle_x (fst (tick inp s)) =
     (if calibratingRef s then paddle_x s else paddle_x (controlPaddle inp s))"
  by (simp add: tick_def Let_def split_beta roundEnd_paddle_x paddleHit_paddle_x moved_paddle_x)

lemma initGame_in_bounds: "in_bounds (paddle_x initGame) \<and> calib_is_number (calib initGame)"
  by (simp add: initGame_def in_bounds_Num W_def)

text \<open>
  While the calibration is absent or has numbers for coefficients, a frame keeps the
  paddle within its bounds, in both control modes.
\<close>

lemma tick_keeps_paddle_in_bounds:
  assumes "in_bounds (paddle_x s)" and "calib_is_number (calib s)"
  shows "in_bounds (paddle_x (fst (tick inp s)))"
proof -
  have nn: "paddle_x s \<noteq> NaN" using assms(1) in_bounds_NaN by auto
  show ?thesis
    using assms keyboard_in_bounds [OF nn] gaze_in_bounds [OF assms]
    by (simp add: tick_paddle_x controlPaddle_def split: option.splits)
qed

text \<open>
  C3. The paddle's x does not stay within [120, 680] on every frame. The key \<open>c\<close>
  pressed a second time while a calibration pass is under way starts a second chain
  of callbacks beside the first; the chain that completes last fits four samples
  against three targets, reads the target array past its end and stores \<open>NaN\<close>
  coefficients. The next frame under gaze control maps the gaze to \<open>NaN\<close>, which
  \<open>Math.max\<close> and \<open>Math.min\<close> hand through, and the paddle's x becomes \<open>NaN\<close>. The
  trace: mount, \<open>c\<close>, \<open>c\<close>, four callbacks with a steady gaze at x = 400, the gaze
  reported as not lost, one frame.
\<close>

theorem overlapping_calibration_breaks_paddle_bounds:
  "(let s = fst (run [Effect True \<lparr>draw_sign = 0, draw_vx = 0, draw_vy = 0\<rparr> 10,
                      KeyDown ''c'' \<lparr>draw_sign = 0, draw_vx = 0, draw_vy = 0\<rparr> 20,
                      KeyDown ''c'' \<lparr>draw_sign = 0, draw_vx = 0, draw_vy = 0\<rparr> 30,
                      CalibDone (replicate 12 (Some (400, 300))) 0,
                      CalibDone (replicate 12 (Some (400, 300))) 0,
                      CalibDone (replicate 12 (Some (400, 300))) 0,
                      CalibDone (replicate 12 (Some (400, 300))) 0,
                      LostSync False,
                      Frame \<lparr>now = 3000, smooth = Some (400, 300), rectLeft = 0\<rparr>] initGame)
    in calib s = Some (NaN, NaN) \<and> paddle_x s = NaN \<and> \<not> in_bounds (paddle_x s))"
  by code_simp


section \<open>Frames, piece by piece\<close>

lemma run_Cons_fst: "fst (run (e # es) s) = fst (run es (fst (handle e s)))"
  by (simp add: split_beta)

lemma run_Cons_snd: "snd (run (e # es) s) = snd (handle e s) @ snd (run es (fst (handle e s)))"
  by (simp add: split_beta)

lemma run_append_fst: "fst (run (xs @ ys) s) = fst (run ys (fst (run xs s)))"
  by (induction xs arbitrary: s) (simp_all add: split_beta)

lemma run_append_snd: "snd (run (xs @ ys) s) = snd (run xs s) @ snd (run ys (fst (run xs s)))"
  by (induction xs arbitrary: s) (simp_all add: split_beta)

lemma tick_unfold:
  "tick inp s =
     (if calibratingRef s then (s, [])
      else (fst (roundEnd (fst (paddleHit (now inp) (moved inp s)))),
            snd (paddleHit (now inp) (moved inp s)) @
            snd (roundEnd (fst (paddleHit (now inp) (moved inp s))))))"
  by (simp add: tick_def Let_def split_beta)

lemma moved_fields:
  "roundStartTs (moved inp s) = roundStartTs s"
  "firstContactTs (moved inp s) = firstContactTs s"
  "runningRef (moved inp s) = runningRef s"
  "calibratingRef (moved inp s) = calibratingRef s"
  "driftAcc (moved inp s) = driftAcc s + \<bar>paddle_x (controlPaddle inp s) - lastPaddleX s\<bar>"
  "lastPaddleX (moved inp s) = paddle_x (controlPaddle inp s)"
  by (simp_all add: moved_def ballPhysics_def accumulateDrift_def controlPaddle_def
      gazeControl_def keyboardControl_def Let_def split: option.splits)

lemma firstContact_fields:
  "roundStartTs (fst (firstContact t s)) = roundStartTs s"
  "runningRef (fst (firstContact t s)) = runningRef s"
  "calibratingRef (fst (firstContact t s)) = calibratingRef s"
  "driftAcc (fst (firstContact t s)) = driftAcc s"
  "lastPaddleX (fst (firstContact t s)) = lastPaddleX s"
  "paddle_x (fst (firstContact t s)) = paddle_x s"
  "ball (fst (firstContact t s)) = ball s"
  by (simp_all add: firstContact_def split: option.splits)

lemma paddleHit_fields:
  "roundStartTs (fst (paddleHit t s)) = roundStartTs s"
  "runningRef (fst (paddleHit t s)) = runningRef s"
  "calibratingRef (fst (paddleHit t s)) = calibratingRef s"
  "driftAcc (fst (paddleHit t s)) = driftAcc s"
  "lastPaddleX (fst (paddleHit t s)) = lastPaddleX s"
  "ball_y (ball (fst (paddleHit t s))) = ball_y (ball s)"
  by (simp_all add: paddleHit_def Let_def split_beta firstContact_fields split: jsnum.splits)

lemma roundEnd_fields:
  "roundStartTs (fst (roundEnd s)) = roundStartTs s"
  "firstContactTs (fst (roundEnd s)) = firstContactTs s"
  "calibratingRef (fst (roundEnd s)) = calibratingRef s"
  "driftAcc (fst (roundEnd s)) = driftAcc s"
  "lastPaddleX (fst (roundEnd s)) = lastPaddleX s"
  "ball (fst (roundEnd s)) = ball s"
  by (simp_all add: roundEnd_def)

lemma roundEnd_running: "runningRef (fst (roundEnd s)) \<Longrightarrow> runningRef s"
  by (simp add: roundEnd_def split: if_splits)

lemma roundEnd_contact: "contact_trials (snd (roundEnd s)) = []"
  by (simp add: roundEnd_def contact_trials_def mkTrial_def)

lemma paddleHit_drift: "trials_of Drift_px (snd (paddleHit t s)) = []"
  by (simp add: paddleHit_def firstContact_def trials_of_def mkTrial_def Let_def split_beta
      split: jsnum.splits option.splits)

lemma hit_number: "hit s \<Longrightarrow> \<exists>x. paddle_x s = Num x"
  by (cases "paddle_x s") (simp_all add: hit_def Let_def)

lemma hit_iff:
  "hit s \<longleftrightarrow>
     (\<exists>x. paddle_x s = Num x \<and>
          ball_y (ball s) + ball_r \<ge> paddle_y - paddle_h / 2 \<and>
          x - paddle_w / 2 \<le> ball_x (ball s) \<and> ball_x (ball s) \<le> x + paddle_w / 2 \<and>
          ball_vy (ball s) > 0)"
  by (cases "paddle_x s") (auto simp add: hit_def Let_def)

lemma hit_span:
  "(hit s \<longleftrightarrow>
      paddle_y - paddle_h / 2 \<le> ball_y (ball s) + ball_r \<and> in_horizontal_span s \<and>
      0 < ball_vy (ball s)) \<and>
   (in_vertical_band s \<and> in_horizontal_span s \<and> 0 < ball_vy (ball s) \<longrightarrow> hit s)"
  by (auto simp add: hit_def Let_def in_horizontal_span_def in_vertical_band_def)

lemma paddleHit_no_hit: "\<not> hit s \<Longrightarrow> paddleHit t s = (s, [])"
  by (simp add: paddleHit_def)

lemma paddleHit_hit:
  "hit s \<Longrightarrow> snd (paddleHit t s) = snd (firstContact t s) \<and>
             firstContactTs (fst (paddleHit t s)) = firstContactTs (fst (firstContact t s))"
  using hit_number [of s] by (auto simp add: paddleHit_def Let_def split_beta)

lemma firstContact_again: "truthy (firstContactTs s) \<Longrightarrow> firstContact t s = (s, [])"
  by (simp add: firstContact_def split: option.splits)

lemma firstContact_first:
  "firstContactTs s = None \<Longrightarrow> roundStartTs s = Some t0 \<Longrightarrow> t0 \<noteq> 0 \<Longrightarrow>
     firstContact t s =
       (s\<lparr>firstContactTs := Some t\<rparr>,
        [mkTrial Latency_ms (Num (t - t0)) ''ms'',
         mkTrial Accuracy_px \<bar>Num (ball_x (ball s)) - paddle_x s\<bar> ''px''])"
  by (simp add: firstContact_def)

text \<open>
  The test of the round-start timestamp is by truthiness: in a round reset at clock
  reading 0 a contact emits nothing.
\<close>

lemma firstContact_start_zero: "roundStartTs s = Some 0 \<Longrightarrow> firstContact t s = (s, [])"
  by (simp add: firstContact_def)

lemma contact_trials_pair:
  "contact_trials [mkTrial Latency_ms a u, mkTrial Accuracy_px b v] =
     [mkTrial Latency_ms a u, mkTrial Accuracy_px b v]"
  by (simp add: contact_trials_def mkTrial_def)

lemma contact_trials_Nil: "contact_trials [] = []"
  by (simp add: contact_trials_def)

lemma contact_trials_pair_Cons:
  "contact_trials (mkTrial Latency_ms a u # mkTrial Accuracy_px b v # rest) =
     mkTrial Latency_ms a u # mkTrial Accuracy_px b v # contact_trials rest"
  by (simp add: contact_trials_def mkTrial_def)

lemma contact_trials_append: "contact_trials (xs @ ys) = contact_trials xs @ contact_trials ys"
  by (simp add: contact_trials_def)

lemma trials_of_append: "trials_of m (xs @ ys) = trials_of m xs @ trials_of m ys"
  by (simp add: trials_of_def)

section \<open>Events that do not reset\<close>

lemma handle_keeps_round:
  assumes "\<not> is_reset e"
  shows "roundStartTs (fst (handle e s)) = roundStartTs s"
    and "runningRef (fst (handle e s)) \<Longrightarrow> runningRef s"
    and "firstContactTs (fst (handle e s)) = None \<Longrightarrow> firstContactTs s = None"
proof -
  show "roundStartTs (fst (handle e s)) = roundStartTs s"
    using assms
    by (cases e)
      (auto simp add: down_def up_def startCalibration_def scheduleCalibSample_def
        calibSampleDone_def Let_def tick_unfold roundEnd_fields paddleHit_fields moved_fields
        split: list.splits)
  show "runningRef (fst (handle e s)) \<Longrightarrow> runningRef s"
    using assms
    by (cases e)
      (auto simp add: down_def up_def startCalibration_def scheduleCalibSample_def
        calibSampleDone_def Let_def tick_unfold paddleHit_fields moved_fields
        dest: roundEnd_running split: list.splits if_splits)
  show "firstContactTs (fst (handle e s)) = None \<Longrightarrow> firstContactTs s = None"
    using assms
    by (cases e)
      (auto simp add: down_def up_def startCalibration_def scheduleCalibSample_def
        calibSampleDone_def Let_def tick_unfold roundEnd_fields moved_fields
        paddleHit_def firstContact_def split_beta
        split: list.splits if_splits jsnum.splits option.splits)
qed


section \<open>Contact trials along a trace\<close>

lemma tick_no_detection:
  assumes "\<not> detected (Frame inp) s"
  shows "firstContactTs (fst (tick inp s)) = firstContactTs s"
    and "contact_trials (snd (tick inp s)) = []"
  using assms
  by (auto simp add: tick_unfold roundEnd_fields moved_fields paddleHit_no_hit
      contact_trials_append roundEnd_contact contact_trials_Nil)

lemma tick_contact_again:
  assumes "truthy (firstContactTs s)"
  shows "firstContactTs (fst (tick inp s)) = firstContactTs s"
    and "contact_trials (snd (tick inp s)) = []"
proof -
  have m: "truthy (firstContactTs (moved inp s))"
    using assms by (simp add: moved_fields)
  have "firstContactTs (fst (paddleHit (now inp) (moved inp s))) = firstContactTs s \<and>
        snd (paddleHit (now inp) (moved inp s)) = []"
    using paddleHit_hit [of "moved inp s" "now inp"] firstContact_again [OF m, of "now inp"]
    by (cases "hit (moved inp s)") (simp_all add: paddleHit_no_hit moved_fields)
  then show "firstContactTs (fst (tick inp s)) = firstContactTs s"
    and "contact_trials (snd (tick inp s)) = []"
    by (simp_all add: tick_unfold roundEnd_fields contact_trials_append roundEnd_contact
        contact_trials_Nil)
qed

lemma tick_first_contact:
  assumes "detected (Frame inp) s" and "firstContactTs s = None"
    and "roundStartTs s = Some t0" and "t0 \<noteq> 0"
  shows "contact_trials (snd (tick inp s)) =
           [mkTrial Latency_ms (Num (now inp - t0)) ''ms'',
            mkTrial Accuracy_px \<bar>Num (ball_x (ball (moved inp s))) - paddle_x (moved inp s)\<bar> ''px'']"
    and "firstContactTs (fst (tick inp s)) = Some (now inp)"
proof -
  have h: "hit (moved inp s)" and c: "\<not> calibratingRef s"
    using assms(1) by simp_all
  have f: "firstContact (now inp) (moved inp s) =
       ((moved inp s)\<lparr>firstContactTs := Some (now inp)\<rparr>,
        [mkTrial Latency_ms (Num (now inp - t0)) ''ms'',
         mkTrial Accuracy_px \<bar>Num (ball_x (ball (moved inp s))) - paddle_x (moved inp s)\<bar> ''px''])"
    using assms(2,3,4) by (intro firstContact_first) (simp_all add: moved_fields)
  show "contact_trials (snd (tick inp s)) =
           [mkTrial Latency_ms (Num (now inp - t0)) ''ms'',
            mkTrial Accuracy_px \<bar>Num (ball_x (ball (moved inp s))) - paddle_x (moved inp s)\<bar> ''px'']"
    using paddleHit_hit [OF h, of "now inp"] c
    by (simp add: tick_unfold f contact_trials_pair_Cons roundEnd_contact)
  show "firstContactTs (fst (tick inp s)) = Some (now inp)"
    using paddleHit_hit [OF h, of "now inp"] c
    by (simp add: tick_unfold f roundEnd_fields)
qed

lemma handle_no_detection:
  assumes "\<not> is_reset e" and "\<not> detected e s"
  shows "firstContactTs (fst (handle e s)) = firstContactTs s"
    and "contact_trials (snd (handle e s)) = []"
proof -
  show "firstContactTs (fst (handle e s)) = firstContactTs s"
    using assms tick_no_detection(1)
    by (cases e)
      (auto simp add: down_def up_def startCalibration_def scheduleCalibSample_def
        calibSampleDone_def Let_def split: list.splits)
  show "contact_trials (snd (handle e s)) = []"
    using assms tick_no_detection(2)
    by (cases e) (auto simp add: contact_trials_Nil)
qed

lemma handle_contact_again:
  assumes "\<not> is_reset e" and "truthy (firstContactTs s)"
  shows "firstContactTs (fst (handle e s)) = firstContactTs s"
    and "contact_trials (snd (handle e s)) = []"
proof -
  show "firstContactTs (fst (handle e s)) = firstContactTs s"
    using assms tick_contact_again(1)
    by (cases e)
      (auto simp add: down_def up_def startCalibration_def scheduleCalibSample_def
        calibSampleDone_def Let_def split: list.splits)
  show "contact_trials (snd (handle e s)) = []"
    using assms tick_contact_again(2)
    by (cases e) (auto simp add: contact_trials_Nil)
qed

lemma run_before_contact:
  "no_reset evs \<Longrightarrow> no_detection evs s \<Longrightarrow>
     firstContactTs (fst (run evs s)) = firstContactTs s \<and>
     roundStartTs (fst (run evs s)) = roundStartTs s \<and>
     contact_trials (snd (run evs s)) = []"
proof (induction evs arbitrary: s)
  case Nil
  then show ?case by (simp add: contact_trials_Nil)
next
  case (Cons e es)
  have nr: "\<not> is_reset e" and nrs: "no_reset es"
    using Cons.prems(1) by (simp_all add: no_reset_def)
  have nd: "\<not> detected e s" and nds: "no_detection es (fst (handle e s))"
    using Cons.prems(2) by simp_all
  show ?case
    using Cons.IH [OF nrs nds] handle_no_detection [OF nr nd] handle_keeps_round(1) [OF nr, of s]
    by (simp add: run_Cons_fst run_Cons_snd contact_trials_append del: run.simps(2))
qed

lemma run_after_contact:
  "no_reset evs \<Longrightarrow> truthy (firstContactTs s) \<Longrightarrow> contact_trials (snd (run evs s)) = []"
proof (induction evs arbitrary: s)
  case Nil
  then show ?case by (simp add: contact_trials_Nil)
next
  case (Cons e es)
  have nr: "\<not> is_reset e" and nrs: "no_reset es"
    using Cons.prems(1) by (simp_all add: no_reset_def)
  have t: "truthy (firstContactTs (fst (handle e s)))"
    using handle_contact_again(1) [OF nr Cons.prems(2)] Cons.prems(2) by simp
  show ?case
    using Cons.IH [OF nrs t] handle_contact_again(2) [OF nr Cons.prems(2)]
    by (simp add: run_Cons_snd contact_trials_append del: run.simps(2))
qed

text \<open>
  C1, as the code has it. In a frame that runs the simulation, a collision is detected
  exactly when, after the ball has moved, the ball is moving downward, its bottom edge
  is at or below the paddle's top edge, and its x lies within the paddle's horizontal
  span; there is no lower limit, so the vertical band and the span together are
  sufficient but not necessary. In a round reset at a clock reading \<open>t0\<close> other than 0,
  the first detection, at a clock reading other than 0, emits exactly one latency
  trial, of value now minus \<open>t0\<close>, and one accuracy trial, of value
  \<open>|ball.x - paddle.x|\<close>; no latency or accuracy trial is emitted before it, and none
  after it until the next reset.
\<close>

theorem paddle_hit_and_first_contact:
  "(hit u \<longleftrightarrow>
      paddle_y - paddle_h / 2 \<le> ball_y (ball u) + ball_r \<and> in_horizontal_span u \<and>
      0 < ball_vy (ball u)) \<and>
   (in_vertical_band u \<and> in_horizontal_span u \<and> 0 < ball_vy (ball u) \<longrightarrow> hit u) \<and>
   (let s0 = resetRound d t0 s; s1 = fst (run pre s0); m = moved inp s1; r = tick inp s1
    in t0 \<noteq> 0 \<and> now inp \<noteq> 0 \<and> no_reset pre \<and> no_reset post \<and>
       no_detection pre s0 \<and> detected (Frame inp) s1 \<longrightarrow>
         contact_trials (snd (run pre s0)) = [] \<and>
         contact_trials (snd r) =
           [mkTrial Latency_ms (Num (now inp - t0)) ''ms'',
            mkTrial Accuracy_px \<bar>Num (ball_x (ball m)) - paddle_x m\<bar> ''px''] \<and>
         contact_trials (snd (run post (fst r))) = [])"
proof -
  define s0 where "s0 = resetRound d t0 s"
  define s1 where "s1 = fst (run pre s0)"
  have r0: "firstContactTs s0 = None" "roundStartTs s0 = Some t0"
    by (simp_all add: s0_def resetRound_def)
  have main: "contact_trials (snd (run pre s0)) = [] \<and>
         contact_trials (snd (tick inp s1)) =
           [mkTrial Latency_ms (Num (now inp - t0)) ''ms'',
            mkTrial Accuracy_px \<bar>Num (ball_x (ball (moved inp s1))) - paddle_x (moved inp s1)\<bar> ''px''] \<and>
         contact_trials (snd (run post (fst (tick inp s1)))) = []"
    if a: "t0 \<noteq> 0" "now inp \<noteq> 0" "no_reset pre" "no_reset post"
      "no_detection pre s0" "detected (Frame inp) s1"
  proof -
    have pre: "firstContactTs s1 = None" "roundStartTs s1 = Some t0"
      "contact_trials (snd (run pre s0)) = []"
      using run_before_contact [OF a(3) a(5)] r0 by (simp_all add: s1_def)
    have fr: "truthy (firstContactTs (fst (tick inp s1)))"
      using tick_first_contact(2) [OF a(6) pre(1) pre(2) a(1)] a(2) by simp
    show ?thesis
      using pre(3) tick_first_contact(1) [OF a(6) pre(1) pre(2) a(1)]
        run_after_contact [OF a(4) fr]
      by simp
  qed
  show ?thesis
    using main hit_span [of u] unfolding s0_def s1_def Let_def by blast
qed


section \<open>Drift along a trace\<close>

lemma trials_of_Nil: "trials_of m [] = []"
  by (simp add: trials_of_def)

lemma tick_last_paddle:
  "lastPaddleX s = paddle_x s \<Longrightarrow> lastPaddleX (fst (tick inp s)) = paddle_x (fst (tick inp s))"
  by (simp add: tick_unfold roundEnd_fields paddleHit_fields moved_fields
      roundEnd_paddle_x paddleHit_paddle_x moved_paddle_x)

lemma handle_last_paddle:
  "lastPaddleX s = paddle_x s \<Longrightarrow> lastPaddleX (fst (handle e s)) = paddle_x (fst (handle e s))"
  using tick_last_paddle
  by (cases e)
    (auto simp add: resetRound_def down_def up_def startCalibration_def scheduleCalibSample_def
      calibSampleDone_def Let_def split: list.splits)

lemma tick_drift:
  "lastPaddleX s = paddle_x s \<Longrightarrow> \<not> calibratingRef s \<Longrightarrow>
     driftAcc (fst (tick inp s)) = driftAcc s + \<bar>paddle_x (fst (tick inp s)) - paddle_x s\<bar>"
  by (simp add: tick_unfold roundEnd_fields paddleHit_fields moved_fields
      roundEnd_paddle_x paddleHit_paddle_x moved_paddle_x)

lemma handle_drift:
  assumes "\<not> is_reset e" and "lastPaddleX s = paddle_x s"
  shows "driftAcc (fst (handle e s)) = foldl (\<lambda>a b. a + b) (driftAcc s) (frame_displacement e s)"
proof (cases e)
  case (Frame inp)
  then show ?thesis
    using tick_drift [OF assms(2), of inp] by (simp add: tick_unfold)
qed (use assms in \<open>auto simp add: down_def up_def startCalibration_def scheduleCalibSample_def
      calibSampleDone_def Let_def split: list.splits\<close>)

lemma run_drift:
  "no_reset evs \<Longrightarrow> lastPaddleX s = paddle_x s \<Longrightarrow>
     driftAcc (fst (run evs s)) = foldl (\<lambda>a b. a + b) (driftAcc s) (frame_displacements evs s)"
proof (induction evs arbitrary: s)
  case Nil
  then show ?case by simp
next
  case (Cons e es)
  have nr: "\<not> is_reset e" and nrs: "no_reset es"
    using Cons.prems(1) by (simp_all add: no_reset_def)
  show ?case
    using Cons.IH [OF nrs handle_last_paddle [OF Cons.prems(2)]] handle_drift [OF nr Cons.prems(2)]
    by (simp add: run_Cons_fst del: run.simps(2))
qed

lemma run_last_paddle:
  "lastPaddleX s = paddle_x s \<Longrightarrow> lastPaddleX (fst (run evs s)) = paddle_x (fst (run evs s))"
  by (induction evs arbitrary: s) (simp_all add: run_Cons_fst handle_last_paddle del: run.simps(2))

lemma roundEnd_drift:
  "trials_of Drift_px (snd (roundEnd s)) =
     (if ball_y (ball s) - ball_r > H \<and> runningRef s then [mkTrial Drift_px (driftAcc s) ''px''] else [])"
  by (simp add: roundEnd_def trials_of_def mkTrial_def)

lemma roundEnd_stops:
  "ball_y (ball s) - ball_r > H \<Longrightarrow> \<not> runningRef (fst (roundEnd s))"
  by (simp add: roundEnd_def)

lemma tick_round_end:
  assumes "\<not> calibratingRef s" and "runningRef s"
    and "ball_y (ball (fst (tick inp s))) - ball_r > H"
  shows "trials_of Drift_px (snd (tick inp s)) = [mkTrial Drift_px (driftAcc (fst (tick inp s))) ''px'']"
    and "\<not> runningRef (fst (tick inp s))"
proof -
  let ?p = "fst (paddleHit (now inp) (moved inp s))"
  have y: "ball_y (ball ?p) - ball_r > H"
    using assms(1,3) by (simp add: tick_unfold roundEnd_fields)
  have r: "runningRef ?p"
    using assms(2) by (simp add: paddleHit_fields moved_fields)
  show "trials_of Drift_px (snd (tick inp s)) = [mkTrial Drift_px (driftAcc (fst (tick inp s))) ''px'']"
    using assms(1) y r
    by (simp add: tick_unfold trials_of_append paddleHit_drift roundEnd_drift roundEnd_fields)
  show "\<not> runningRef (fst (tick inp s))"
    using assms(1) roundEnd_stops [OF y] by (simp add: tick_unfold)
qed

lemma tick_not_running:
  "\<not> runningRef s \<Longrightarrow> trials_of Drift_px (snd (tick inp s)) = []"
  by (simp add: tick_unfold trials_of_append paddleHit_drift roundEnd_drift paddleHit_fields
      moved_fields trials_of_Nil)

lemma handle_not_running:
  assumes "\<not> is_reset e" and "\<not> runningRef s"
  shows "trials_of Drift_px (snd (handle e s)) = []"
  using assms tick_not_running by (cases e) (auto simp add: trials_of_Nil)

lemma run_not_running:
  "no_reset evs \<Longrightarrow> \<not> runningRef s \<Longrightarrow> trials_of Drift_px (snd (run evs s)) = []"
proof (induction evs arbitrary: s)
  case Nil
  then show ?case by (simp add: trials_of_Nil)
next
  case (Cons e es)
  have nr: "\<not> is_reset e" and nrs: "no_reset es"
    using Cons.prems(1) by (simp_all add: no_reset_def)
  have "\<not> runningRef (fst (handle e s))"
    using handle_keeps_round(2) [OF nr] Cons.prems(2) by blast
  then show ?case
    using Cons.IH [OF nrs] handle_not_running [OF nr Cons.prems(2)]
    by (simp add: run_Cons_snd trials_of_append del: run.simps(2))
qed

lemma tick_drift_stops:
  "trials_of Drift_px (snd (tick inp s)) \<noteq> [] \<Longrightarrow> \<not> runningRef (fst (tick inp s))"
  by (auto simp add: tick_unfold trials_of_append paddleHit_drift roundEnd_drift roundEnd_def
      trials_of_Nil split: if_splits)

lemma handle_drift_stops:
  "trials_of Drift_px (snd (handle e s)) \<noteq> [] \<Longrightarrow> \<not> runningRef (fst (handle e s))"
  using tick_drift_stops by (cases e) (auto simp add: trials_of_Nil)

lemma run_stays_stopped:
  "no_reset evs \<Longrightarrow> \<not> runningRef s \<Longrightarrow> \<not> runningRef (fst (run evs s))"
proof (induction evs arbitrary: s)
  case Nil
  then show ?case by simp
next
  case (Cons e es)
  have nr: "\<not> is_reset e" and nrs: "no_reset es"
    using Cons.prems(1) by (simp_all add: no_reset_def)
  have "\<not> runningRef (fst (handle e s))"
    using handle_keeps_round(2) [OF nr] Cons.prems(2) by blast
  then show ?case
    using Cons.IH [OF nrs] by (simp add: run_Cons_fst del: run.simps(2))
qed

lemma run_still_running:
  "no_reset evs \<Longrightarrow> runningRef (fst (run evs s)) \<Longrightarrow> trials_of Drift_px (snd (run evs s)) = []"
proof (induction evs arbitrary: s)
  case Nil
  then show ?case by (simp add: trials_of_Nil)
next
  case (Cons e es)
  have nr: "\<not> is_reset e" and nrs: "no_reset es"
    using Cons.prems(1) by (simp_all add: no_reset_def)
  have r: "runningRef (fst (run es (fst (handle e s))))"
    using Cons.prems(2) by (simp add: run_Cons_fst del: run.simps(2))
  then have "runningRef (fst (handle e s))"
    using run_stays_stopped [OF nrs] by blast
  then have "trials_of Drift_px (snd (handle e s)) = []"
    using handle_drift_stops by blast
  then show ?case
    using Cons.IH [OF nrs r] by (simp add: run_Cons_snd trials_of_append del: run.simps(2))
qed

text \<open>
  C2, as the code has it. After a round reset and any events that do not reset, a
  frame that runs the simulation while the round is running and leaves the ball's top
  edge below \<open>H\<close> emits exactly one drift trial, whose value is the sum of the absolute
  displacements of the paddle's x over the frames since the reset, this one included,
  and sets running to false. No drift trial is emitted before it in the round, and
  none after it until the next reset. A later frame can still emit the round's latency
  and accuracy trials: the collision test looks neither at running nor for a lower
  limit.
\<close>

theorem round_end_emits_drift_once:
  "(let s0 = resetRound d t s; s1 = fst (run pre s0); r = tick inp s1
    in no_reset pre \<and> no_reset post \<and> \<not> calibratingRef s1 \<and> runningRef s1 \<and>
       ball_y (ball (fst r)) - ball_r > H \<longrightarrow>
         trials_of Drift_px (snd r) =
           [mkTrial Drift_px (total_drift (frame_displacements (pre @ [Frame inp]) s0)) ''px''] \<and>
         \<not> runningRef (fst r) \<and>
         trials_of Drift_px (snd (run pre s0)) = [] \<and>
         trials_of Drift_px (snd (run post (fst r))) = [])"
proof -
  define s0 where "s0 = resetRound d t s"
  define s1 where "s1 = fst (run pre s0)"
  have l0: "lastPaddleX s0 = paddle_x s0" and d0: "driftAcc s0 = Num 0"
    by (simp_all add: s0_def resetRound_def)
  have main: "trials_of Drift_px (snd (tick inp s1)) =
           [mkTrial Drift_px (total_drift (frame_displacements (pre @ [Frame inp]) s0)) ''px''] \<and>
         \<not> runningRef (fst (tick inp s1)) \<and>
         trials_of Drift_px (snd (run pre s0)) = [] \<and>
         trials_of Drift_px (snd (run post (fst (tick inp s1)))) = []"
    if a: "no_reset pre" "no_reset post" "\<not> calibratingRef s1" "runningRef s1"
      "ball_y (ball (fst (tick inp s1))) - ball_r > H"
  proof -
    have nr: "no_reset (pre @ [Frame inp])"
      using a(1) by (simp add: no_reset_def)
    have "driftAcc (fst (run (pre @ [Frame inp]) s0)) =
            total_drift (frame_displacements (pre @ [Frame inp]) s0)"
      using run_drift [OF nr l0] d0 by (simp add: total_drift_def)
    then have dr: "driftAcc (fst (tick inp s1)) = total_drift (frame_displacements (pre @ [Frame inp]) s0)"
      by (simp add: run_append_fst s1_def)
    have pre: "trials_of Drift_px (snd (run pre s0)) = []"
      using run_still_running [OF a(1)] a(4) by (simp add: s1_def)
    show ?thesis
      using tick_round_end [OF a(3) a(4) a(5)] dr pre
        run_not_running [OF a(2) tick_round_end(2) [OF a(3) a(4) a(5)]]
      by simp
  qed
  show ?thesis
    using main unfolding s0_def s1_def Let_def by blast
qed

section \<open>Round resets\<close>

text \<open>
  C4, as the code has it. The events that reset the round are the Space key going down,
  in calibration mode or not, and every run of the render effect (on mount and again
  whenever \<open>sessionId\<close>, \<open>useGaze\<close> or \<open>ready\<close> changes). A reset respawns the ball at
  (400, 120), records the round-start timestamp, clears the first-contact timestamp,
  zeroes the drift accumulator and sets running. No other event records a round-start
  timestamp, sets running or clears the first-contact timestamp.
\<close>

theorem round_reset_events:
  "is_reset e = ((\<exists>ug d t. e = Effect ug d t) \<or> (\<exists>d t. e = KeyDown '' '' d t)) \<and>
   handle (KeyDown '' '' d t) s = (resetRound d t s, []) \<and>
   handle (Effect ug d t) s = (resetRound d t (s\<lparr>useGaze := ug\<rparr>), []) \<and>
   (let s' = resetRound d t s
    in ball_x (ball s') = W / 2 \<and> ball_y (ball s') = 120 \<and> roundStartTs s' = Some t \<and>
       firstContactTs s' = None \<and> driftAcc s' = Num 0 \<and> runningRef s') \<and>
   (\<not> is_reset e \<longrightarrow>
      roundStartTs (fst (handle e s)) = roundStartTs s \<and>
      (runningRef (fst (handle e s)) \<longrightarrow> runningRef s) \<and>
      (firstContactTs (fst (handle e s)) = None \<longrightarrow> firstContactTs s = None))"
proof -
  have a: "is_reset e = ((\<exists>ug d t. e = Effect ug d t) \<or> (\<exists>d t. e = KeyDown '' '' d t))"
    by (cases e) auto
  have b: "handle (KeyDown '' '' d t) s = (resetRound d t s, [])"
    by (simp add: down_def)
  have c: "handle (Effect ug d t) s = (resetRound d t (s\<lparr>useGaze := ug\<rparr>), [])"
    by simp
  have r: "(let s' = resetRound d t s
    in ball_x (ball s') = W / 2 \<and> ball_y (ball s') = 120 \<and> roundStartTs s' = Some t \<and>
       firstContactTs s' = None \<and> driftAcc s' = Num 0 \<and> runningRef s')"
    by (simp add: resetRound_def)
  show ?thesis
    using a b c r handle_keeps_round [of e s] by blast
qed


section \<open>The example round\<close>

lemma exStart_eq:
  "exStart =
     initGame\<lparr>ball := \<lparr>ball_x = 400, ball_y = 120, ball_vx = - (14 / 5), ball_vy = 43 / 10\<rparr>,
              roundStartTs := Some 10, runningRef := True\<rparr>"
  by (simp add: exStart_def resetRound_def exDraws_def initGame_def W_def)

lemma exStart_exState: "exStart = exState 400 0 0 False False"
  by (simp add: exState_def exStart_eq initGame_def W_def)

lemma exState_fields:
  "calibratingRef (exState px k dr kl kr) = False"
  "runningRef (exState px k dr kl kr) = True"
  "firstContactTs (exState px k dr kl kr) = None"
  "roundStartTs (exState px k dr kl kr) = Some 10"
  by (simp_all add: exState_def exStart_eq initGame_def)

lemma exState_down_left: "down ''ArrowLeft'' d t (exState px k dr kl kr) = exState px k dr True kr"
  by (simp add: exState_def down_def)

lemma exState_down_right: "down ''ArrowRight'' d t (exState px k dr kl kr) = exState px k dr kl True"
  by (simp add: exState_def down_def)

lemma exState_moved:
  assumes "k < 100"
  shows "moved exFrame (exState px k dr kl kr) =
           exState (max 120 (min 680 (px - (if kl then 10 else 0) + (if kr then 10 else 0))))
             (Suc k)
             (dr + \<bar>max 120 (min 680 (px - (if kl then 10 else 0) + (if kr then 10 else 0))) - px\<bar>)
             kl kr"
proof -
  have k: "real k \<le> 99" using assms by simp
  show ?thesis
    using k
    by (simp add: moved_def controlPaddle_def exFrame_def keyboardControl_def Let_def
        exState_def exStart_eq initGame_def accumulateDrift_def ballPhysics_def
        clampX_Num paddle_speed_eq ball_r_eq W_def field_simps)
qed

lemma exState_hit:
  "hit (exState px k dr kl kr) \<longleftrightarrow>
     (336 \<le> (43 / 10) * real k \<and> px - 120 \<le> 400 - (14 / 5) * real k \<and>
      400 - (14 / 5) * real k \<le> px + 120)"
  by (auto simp add: hit_def Let_def exState_def paddle_w_eq paddle_h_eq paddle_y_eq ball_r_eq)

lemma exState_roundEnd:
  "k \<le> 91 \<Longrightarrow> roundEnd (exState px k dr kl kr) = (exState px k dr kl kr, [])"
  by (simp add: roundEnd_def exState_def ball_r_eq H_def)

lemma exState_tick:
  assumes "k < 91"
    and "moved exFrame (exState px k dr kl kr) = exState px' (Suc k) dr' kl kr"
    and "\<not> hit (exState px' (Suc k) dr' kl kr)"
  shows "tick exFrame (exState px k dr kl kr) = (exState px' (Suc k) dr' kl kr, [])"
    and "\<not> detected (Frame exFrame) (exState px k dr kl kr)"
  using assms exState_roundEnd [of "Suc k" px' dr' kl kr]
  by (simp_all add: tick_unfold exState_fields paddleHit_no_hit)

lemma replicate_snoc: "replicate (Suc k) x = replicate k x @ [x]"
  by (simp only: replicate_append_same) simp

lemma no_detection_append:
  "no_detection (xs @ ys) s = (no_detection xs s \<and> no_detection ys (fst (run xs s)))"
  by (induction xs arbitrary: s) (simp_all add: run_Cons_fst del: run.simps(2))

lemma no_reset_frames: "no_reset (replicate k (Frame inp))"
  by (simp add: no_reset_def list_all_iff)

lemma no_reset_Cons: "no_reset (e # es) = (\<not> is_reset e \<and> no_reset es)"
  by (simp add: no_reset_def)

lemma no_reset_append: "no_reset (xs @ ys) = (no_reset xs \<and> no_reset ys)"
  by (simp add: no_reset_def)

text \<open>Frames with the right arrow held: the paddle slides to 680 and the ball falls clear of it.\<close>

lemma slide_right:
  "k \<le> 91 \<Longrightarrow>
     run (replicate k (Frame exFrame)) (exState 400 0 0 False True) =
       (exState (min 680 (400 + 10 * real k)) k (min 280 (10 * real k)) False True, [])"
proof (induction k)
  case 0
  then show ?case by simp
next
  case (Suc k)
  have k: "k < 91" "k < 100" using Suc.prems by simp_all
  have m: "moved exFrame (exState (min 680 (400 + 10 * real k)) k (min 280 (10 * real k)) False True) =
           exState (min 680 (400 + 10 * real (Suc k))) (Suc k) (min 280 (10 * real (Suc k))) False True"
    by (simp add: exState_moved [OF k(2)]) (auto simp add: min_def max_def exState_def)
  have nh: "\<not> hit (exState (min 680 (400 + 10 * real (Suc k))) (Suc k) (min 280 (10 * real (Suc k))) False True)"
    by (simp add: exState_hit min_def) argo
  show ?case
    unfolding replicate_snoc using Suc exState_tick(1) [OF k(1) m nh]
    by (simp add: prod_eq_iff run_append_fst run_append_snd)
qed

text \<open>Frames with the left arrow held: the paddle slides to 120, under the ball's path.\<close>

lemma slide_left:
  "k \<le> 78 \<Longrightarrow>
     run (replicate k (Frame exFrame)) (exState 400 0 0 True False) =
       (exState (max 120 (400 - 10 * real k)) k (min 280 (10 * real k)) True False, []) \<and>
     no_detection (replicate k (Frame exFrame)) (exState 400 0 0 True False)"
proof (induction k)
  case 0
  then show ?case by simp
next
  case (Suc k)
  have k: "k < 91" "k < 100" "real k \<le> 77" using Suc.prems by simp_all
  have m: "moved exFrame (exState (max 120 (400 - 10 * real k)) k (min 280 (10 * real k)) True False) =
           exState (max 120 (400 - 10 * real (Suc k))) (Suc k) (min 280 (10 * real (Suc k))) True False"
    by (simp add: exState_moved [OF k(2)]) (auto simp add: min_def max_def exState_def)
  have nh: "\<not> hit (exState (max 120 (400 - 10 * real (Suc k))) (Suc k) (min 280 (10 * real (Suc k))) True False)"
    using k(3) by (simp add: exState_hit)
  show ?case
    unfolding replicate_snoc using Suc exState_tick [OF k(1) m nh]
    by (simp add: prod_eq_iff run_append_fst run_append_snd no_detection_append)
qed

text \<open>Frames without a key: the paddle stays at 400 and the ball falls.\<close>

lemma idle_fall:
  "k \<le> 91 \<Longrightarrow>
     run (replicate k (Frame exFrame)) (exState 400 0 0 False False) =
       (exState 400 k 0 False False, [])"
proof (induction k)
  case 0
  then show ?case by simp
next
  case (Suc k)
  have k: "k < 91" "k < 100" using Suc.prems by simp_all
  have m: "moved exFrame (exState 400 k 0 False False) = exState 400 (Suc k) 0 False False"
    by (simp add: exState_moved [OF k(2)])
  have nh: "\<not> hit (exState 400 (Suc k) 0 False False)"
    by (simp add: exState_hit)
  show ?case
    unfolding replicate_snoc using Suc exState_tick(1) [OF k(1) m nh]
    by (simp add: prod_eq_iff run_append_fst run_append_snd)
qed

text \<open>
  After 73 such frames, frames with the left arrow held: the ball is ahead of the
  paddle's left edge all along, also once it is below the paddle's top.
\<close>

lemma late_left:
  "j \<le> 11 \<Longrightarrow>
     run (replicate j (Frame exFrame)) (exState 400 73 0 True False) =
       (exState (400 - 10 * real j) (73 + j) (10 * real j) True False, [])"
proof (induction j)
  case 0
  then show ?case by simp
next
  case (Suc j)
  have j: "73 + j < 91" "73 + j < 100" "real j \<le> 10" using Suc.prems by simp_all
  have m: "moved exFrame (exState (400 - 10 * real j) (73 + j) (10 * real j) True False) =
           exState (400 - 10 * real (Suc j)) (Suc (73 + j)) (10 * real (Suc j)) True False"
    using j(3) by (simp add: exState_moved [OF j(2)]) (auto simp add: min_def max_def exState_def)
  have nh: "\<not> hit (exState (400 - 10 * real (Suc j)) (Suc (73 + j)) (10 * real (Suc j)) True False)"
    by (simp add: exState_hit) (insert j(3), argo)
  show ?case
    unfolding replicate_snoc using Suc exState_tick(1) [OF j(1) m nh]
    by (simp add: prod_eq_iff run_append_fst run_append_snd)
qed

lemma exBelow_reached:
  "fst (run (replicate 73 (Frame exFrame) @ KeyDown ''ArrowLeft'' exDraws 0 #
             replicate 11 (Frame exFrame)) exStart) = exBelow"
  using idle_fall [of 73] late_left [of 11]
  by (simp add: run_append_fst run_Cons_fst exStart_exState exState_down_left exBelow_def
      del: run.simps(2) replicate.simps)


section \<open>The claims on the example round\<close>

theorem round_reset_events_witness:
  "\<not> is_reset (KeyDown ''c'' exDraws 20) \<and>
   roundStartTs (fst (handle (KeyDown ''c'' exDraws 20) exStart)) = Some 10 \<and>
   \<not> runningRef (fst (handle (KeyDown ''c'' exDraws 20) exStart))"
proof -
  have n: "\<not> is_reset (KeyDown ''c'' exDraws 20)" by simp
  have "roundStartTs (fst (handle (KeyDown ''c'' exDraws 20) exStart)) = roundStartTs exStart"
    using round_reset_events [of "KeyDown ''c'' exDraws 20" exDraws 20 exStart True] n by blast
  then show ?thesis
    using n by (simp add: exStart_eq down_def startCalibration_def scheduleCalibSample_def)
qed

text \<open>
  Against C4 as stated: the Space key resets the round while the canvas is in
  calibration mode, and a second run of the render effect resets it again.
\<close>

theorem reset_in_calibration_and_by_effect_counterexample:
  "calibratingRef (startCalibration exStart) \<and>
   roundStartTs (startCalibration exStart) = Some 10 \<and>
   handle (KeyDown '' '' exDraws 30) (startCalibration exStart) =
     (resetRound exDraws 30 (startCalibration exStart), []) \<and>
   roundStartTs (fst (handle (KeyDown '' '' exDraws 30) (startCalibration exStart))) = Some 30 \<and>
   runningRef (fst (handle (KeyDown '' '' exDraws 30) (startCalibration exStart))) \<and>
   calibratingRef (fst (handle (KeyDown '' '' exDraws 30) (startCalibration exStart))) \<and>
   exStart = fst (handle (Effect True exDraws 10) initGame) \<and>
   roundStartTs (fst (handle (Effect True exDraws 40) exStart)) = Some 40"
  by (simp add: down_def startCalibration_def scheduleCalibSample_def exStart_def resetRound_def
      initGame_def)

theorem paddle_hit_and_first_contact_witness:
  "no_reset (KeyDown ''ArrowLeft'' exDraws 0 # replicate 78 (Frame exFrame)) \<and>
   no_detection (KeyDown ''ArrowLeft'' exDraws 0 # replicate 78 (Frame exFrame)) exStart \<and>
   detected (Frame exFrame)
     (fst (run (KeyDown ''ArrowLeft'' exDraws 0 # replicate 78 (Frame exFrame)) exStart)) \<and>
   contact_trials (snd (tick exFrame
     (fst (run (KeyDown ''ArrowLeft'' exDraws 0 # replicate 78 (Frame exFrame)) exStart)))) =
     [mkTrial Latency_ms (Num 1990) ''ms'', mkTrial Accuracy_px (Num (294 / 5)) ''px''] \<and>
   contact_trials (snd (run (replicate 5 (Frame exFrame)) (fst (tick exFrame
     (fst (run (KeyDown ''ArrowLeft'' exDraws 0 # replicate 78 (Frame exFrame)) exStart)))))) = []"
proof -
  let ?pre = "KeyDown ''ArrowLeft'' exDraws 0 # replicate 78 (Frame exFrame)"
  let ?post = "replicate 5 (Frame exFrame)"
  have s1: "fst (run ?pre exStart) = exState 120 78 280 True False"
    using slide_left [of 78]
    by (simp add: run_Cons_fst exStart_exState exState_down_left del: run.simps(2) replicate.simps)
  have h1: "no_reset ?pre" and h2: "no_reset ?post"
    using no_reset_frames by (simp_all add: no_reset_Cons del: replicate.simps)
  have h3: "no_detection ?pre exStart"
    using slide_left [of 78]
    by (simp add: exStart_exState exState_down_left del: replicate.simps)
  have m: "moved exFrame (exState 120 78 280 True False) = exState 120 79 280 True False"
    by (simp add: exState_moved)
  have h4: "detected (Frame exFrame) (exState 120 78 280 True False)"
    by (simp add: m exState_fields exState_hit)
  have h5: "(10 :: real) \<noteq> 0" and h6: "now exFrame \<noteq> 0"
    by (simp_all add: exFrame_def)
  have "contact_trials (snd (tick exFrame (exState 120 78 280 True False))) =
           [mkTrial Latency_ms (Num (now exFrame - 10)) ''ms'',
            mkTrial Accuracy_px
              \<bar>Num (ball_x (ball (exState 120 79 280 True False))) -
               paddle_x (exState 120 79 280 True False)\<bar> ''px''] \<and>
         contact_trials (snd (run ?post (fst (tick exFrame (exState 120 78 280 True False))))) = []"
    using paddle_hit_and_first_contact
        [where d = exDraws and ?t0.0 = 10 and s = initGame and pre = ?pre and inp = exFrame
          and post = ?post]
      h1 h2 h3 h4 h5 h6
    unfolding Let_def exStart_def [symmetric] s1 m by blast
  then show ?thesis
    using h1 h3 h4
    by (simp add: s1 del: run.simps(2) replicate.simps no_detection.simps)
      (simp add: exState_def exFrame_def)
qed

text \<open>
  Against C1 as stated: in the state \<open>exBelow\<close> of the example round the next frame
  detects a collision although the ball's bottom edge, at 498.5, is below the
  paddle's vertical band, which ends at 487; the ball moves downward, its x is within
  the paddle's span, and the frame emits the round's latency and accuracy trials.
\<close>

theorem hit_below_paddle_counterexample:
  "hit (moved exFrame exBelow) \<and>
   detected (Frame exFrame) exBelow \<and>
   0 < ball_vy (ball (moved exFrame exBelow)) \<and>
   in_horizontal_span (moved exFrame exBelow) \<and>
   \<not> in_vertical_band (moved exFrame exBelow) \<and>
   ball_y (ball (moved exFrame exBelow)) + ball_r = 997 / 2 \<and>
   paddle_y + paddle_h / 2 = 487 \<and>
   contact_trials (snd (tick exFrame exBelow)) =
     [mkTrial Latency_ms (Num 1990) ''ms'', mkTrial Accuracy_px (Num 118) ''px'']"
proof -
  have m: "moved exFrame exBelow = exState 280 85 120 True False"
    by (simp add: exBelow_def exState_moved)
  have h: "hit (moved exFrame exBelow)"
    unfolding m by (simp add: exState_hit)
  have d: "detected (Frame exFrame) exBelow"
    using h by (simp add: exBelow_def exState_fields)
  have f: "firstContactTs exBelow = None" and r: "roundStartTs exBelow = Some 10"
    by (simp_all add: exBelow_def exState_fields)
  have t: "(10 :: real) \<noteq> 0" by simp
  show ?thesis
    using h d tick_first_contact(1) [OF d f r t] unfolding m
    by (simp add: in_vertical_band_def in_horizontal_span_def paddle_w_eq paddle_h_eq
        paddle_y_eq ball_r_eq exFrame_def exState_def)
qed

lemma slide_right_last:
  "tick exFrame (exState 680 91 280 False True) =
     ((exState 680 92 280 False True)\<lparr>runningRef := False\<rparr>, [mkTrial Drift_px (Num 280) ''px''])"
proof -
  have m: "moved exFrame (exState 680 91 280 False True) = exState 680 92 280 False True"
    by (simp add: exState_moved)
  have nh: "\<not> hit (exState 680 92 280 False True)"
    by (simp add: exState_hit)
  have e: "roundEnd (exState 680 92 280 False True) =
      ((exState 680 92 280 False True)\<lparr>runningRef := False\<rparr>, [mkTrial Drift_px (Num 280) ''px''])"
    by (simp add: roundEnd_def exState_def exStart_eq ball_r_eq H_def)
  show ?thesis
    by (simp add: tick_unfold exState_fields m paddleHit_no_hit [OF nh] e)
qed

theorem round_end_emits_drift_once_witness:
  "no_reset (KeyDown ''ArrowRight'' exDraws 0 # replicate 91 (Frame exFrame)) \<and>
   no_reset (replicate 5 (Frame exFrame)) \<and>
   runningRef (fst (run (KeyDown ''ArrowRight'' exDraws 0 # replicate 91 (Frame exFrame)) exStart)) \<and>
   trials_of Drift_px (snd (tick exFrame
       (fst (run (KeyDown ''ArrowRight'' exDraws 0 # replicate 91 (Frame exFrame)) exStart)))) =
     [mkTrial Drift_px (Num 280) ''px''] \<and>
   total_drift (frame_displacements
       ((KeyDown ''ArrowRight'' exDraws 0 # replicate 91 (Frame exFrame)) @ [Frame exFrame]) exStart)
     = Num 280 \<and>
   trials_of Drift_px (snd (run (replicate 5 (Frame exFrame)) (fst (tick exFrame
       (fst (run (KeyDown ''ArrowRight'' exDraws 0 # replicate 91 (Frame exFrame)) exStart)))))) = []"
proof -
  let ?pre = "KeyDown ''ArrowRight'' exDraws 0 # replicate 91 (Frame exFrame)"
  let ?post = "replicate 5 (Frame exFrame)"
  have s1: "fst (run ?pre exStart) = exState 680 91 280 False True"
    using slide_right [of 91]
    by (simp add: run_Cons_fst exStart_exState exState_down_right del: run.simps(2) replicate.simps)
  have h1: "no_reset ?pre" and h2: "no_reset ?post"
    using no_reset_frames by (simp_all add: no_reset_Cons del: replicate.simps)
  have h3: "\<not> calibratingRef (exState 680 91 280 False True)"
    and h4: "runningRef (exState 680 91 280 False True)"
    by (simp_all add: exState_fields)
  have h5: "ball_y (ball (fst (tick exFrame (exState 680 91 280 False True)))) - ball_r > H"
    by (simp add: slide_right_last) (simp add: exState_def ball_r_eq H_def)
  have d: "trials_of Drift_px (snd (tick exFrame (exState 680 91 280 False True))) =
      [mkTrial Drift_px (Num 280) ''px'']"
    by (simp add: slide_right_last trials_of_def mkTrial_def)
  have "trials_of Drift_px (snd (tick exFrame (exState 680 91 280 False True))) =
           [mkTrial Drift_px (total_drift (frame_displacements (?pre @ [Frame exFrame]) exStart)) ''px''] \<and>
         trials_of Drift_px (snd (run ?post (fst (tick exFrame (exState 680 91 280 False True))))) = []"
    using round_end_emits_drift_once [of exDraws 10 initGame ?pre exFrame ?post] h1 h2 h3 h4 h5
    unfolding Let_def exStart_def [symmetric] s1 by blast
  then show ?thesis
    using h1 h2 h4 d by (simp add: s1 mkTrial_def del: run.simps(2) replicate.simps)
qed


section \<open>Rounds past their end, and rounds after a reset\<close>

lemma exState_exRound: "exState px k dr kl kr = exRound 10 True px k dr kl kr"
  by (simp add: exRound_def exState_def exStart_eq)

lemma exRound_fields:
  "calibratingRef (exRound t0 rn px k dr kl kr) = False"
  "runningRef (exRound t0 rn px k dr kl kr) = rn"
  "firstContactTs (exRound t0 rn px k dr kl kr) = None"
  "roundStartTs (exRound t0 rn px k dr kl kr) = Some t0"
  "driftAcc (exRound t0 rn px k dr kl kr) = Num dr"
  "paddle_x (exRound t0 rn px k dr kl kr) = Num px"
  "ball_x (ball (exRound t0 rn px k dr kl kr)) = 400 - (14 / 5) * real k"
  "ball_y (ball (exRound t0 rn px k dr kl kr)) = 120 + (43 / 10) * real k"
  by (simp_all add: exRound_def exState_def exStart_eq initGame_def)

lemma moved_round_update:
  "moved inp (s\<lparr>roundStartTs := a, runningRef := b\<rparr>) = (moved inp s)\<lparr>roundStartTs := a, runningRef := b\<rparr>"
  by (simp add: moved_def controlPaddle_def gazeControl_def keyboardControl_def
      accumulateDrift_def ballPhysics_def Let_def split: option.splits)

lemma hit_round_update: "hit (s\<lparr>roundStartTs := a, runningRef := b\<rparr>) = hit s"
  by (simp add: hit_def)

lemma exRound_moved:
  "k < 100 \<Longrightarrow>
   moved exFrame (exRound t0 rn px k dr kl kr) =
     exRound t0 rn (max 120 (min 680 (px - (if kl then 10 else 0) + (if kr then 10 else 0))))
       (Suc k)
       (dr + \<bar>max 120 (min 680 (px - (if kl then 10 else 0) + (if kr then 10 else 0))) - px\<bar>)
       kl kr"
  unfolding exRound_def moved_round_update by (simp only: exState_moved)

lemma exRound_hit:
  "hit (exRound t0 rn px k dr kl kr) \<longleftrightarrow>
     (336 \<le> (43 / 10) * real k \<and> px - 120 \<le> 400 - (14 / 5) * real k \<and>
      400 - (14 / 5) * real k \<le> px + 120)"
  unfolding exRound_def hit_round_update by (rule exState_hit)

lemma exRound_roundEnd:
  "roundEnd (exRound t0 rn px k dr kl kr) =
     (if 393 < (43 / 10) * real k \<and> rn
      then (exRound t0 False px k dr kl kr, [mkTrial Drift_px (Num dr) ''px''])
      else (exRound t0 rn px k dr kl kr, []))"
  by (auto simp add: roundEnd_def exRound_def exState_def ball_r_eq H_def)

lemma exRound_tick_miss:
  assumes "moved exFrame (exRound t0 rn px k dr kl kr) = exRound t0 rn px' k' dr' kl kr"
    and "\<not> hit (exRound t0 rn px' k' dr' kl kr)"
  shows "tick exFrame (exRound t0 rn px k dr kl kr) = roundEnd (exRound t0 rn px' k' dr' kl kr)"
  using assms by (simp add: tick_unfold exRound_fields paddleHit_no_hit)

lemma exRound_tick_hit:
  assumes "moved exFrame (exRound t0 rn px k dr kl kr) = exRound t0 rn px' k' dr' kl kr"
    and "hit (exRound t0 rn px' k' dr' kl kr)" and "t0 \<noteq> 0" and "\<not> (393 < (43 / 10) * real k' \<and> rn)"
  shows "snd (tick exFrame (exRound t0 rn px k dr kl kr)) =
           [mkTrial Latency_ms (Num (2000 - t0)) ''ms'',
            mkTrial Accuracy_px (Num \<bar>400 - (14 / 5) * real k' - px'\<bar>) ''px'']"
    and "resetRound exDraws t (fst (tick exFrame (exRound t0 rn px k dr kl kr))) =
           exRound t True px' 0 0 kl kr"
proof -
  let ?m = "exRound t0 rn px' k' dr' kl kr"
  have n: "now exFrame = 2000" by (simp add: exFrame_def)
  have ph: "paddleHit 2000 ?m =
      (?m\<lparr>firstContactTs := Some 2000,
           ball := (ball ?m)\<lparr>ball_vy := ball_vy (ball ?m) * (- 1),
             ball_vx := ball_vx (ball ?m) +
               (ball_x (ball ?m) - px') / (paddle_w / 2) * (115 / 100)\<rparr>\<rparr>,
       [mkTrial Latency_ms (Num (2000 - t0)) ''ms'',
        mkTrial Accuracy_px (Num \<bar>400 - (14 / 5) * real k' - px'\<bar>) ''px''])"
    using assms(2,3)
    by (simp add: paddleHit_def firstContact_def exRound_fields Let_def)
  have re: "roundEnd (fst (paddleHit 2000 ?m)) = (fst (paddleHit 2000 ?m), [])"
    using assms(4) by (auto simp add: ph roundEnd_def exRound_fields ball_r_eq H_def)
  show "snd (tick exFrame (exRound t0 rn px k dr kl kr)) =
           [mkTrial Latency_ms (Num (2000 - t0)) ''ms'',
            mkTrial Accuracy_px (Num \<bar>400 - (14 / 5) * real k' - px'\<bar>) ''px'']"
    by (simp add: tick_unfold exRound_fields assms(1) n re) (simp add: ph)
  show "resetRound exDraws t (fst (tick exFrame (exRound t0 rn px k dr kl kr))) =
           exRound t True px' 0 0 kl kr"
    by (simp add: tick_unfold exRound_fields assms(1) n re, simp add: ph)
      (simp add: resetRound_def exRound_def exState_def exStart_eq exDraws_def initGame_def W_def)
qed


lemma exRound_keys:
  "up ''ArrowLeft'' (exRound t0 rn px k dr kl kr) = exRound t0 rn px k dr False kr"
  "down ''ArrowRight'' d t (exRound t0 rn px k dr kl kr) = exRound t0 rn px k dr kl True"
  "down ''ArrowLeft'' d t (exRound t0 rn px k dr kl kr) = exRound t0 rn px k dr True kr"
  by (simp_all add: exRound_def exState_def up_def down_def)

text \<open>
  Frames with the left arrow held from frame 82 on: the ball stays ahead of the paddle's
  left edge for fifteen frames, and the round ends in the tenth, at frame 92.
\<close>

lemma left_past_round_end:
  "j \<le> 15 \<Longrightarrow>
     run (replicate j (Frame exFrame)) (exRound 10 True 400 82 0 True False) =
       (exRound 10 (j < 10) (400 - 10 * real j) (82 + j) (10 * real j) True False,
        if j < 10 then [] else [mkTrial Drift_px (Num 100) ''px''])"
proof (induction j)
  case 0
  then show ?case by simp
next
  case (Suc j)
  have j: "82 + j < 100" "real j \<le> 14" using Suc.prems by simp_all
  have m: "moved exFrame (exRound 10 (j < 10) (400 - 10 * real j) (82 + j) (10 * real j) True False) =
           exRound 10 (j < 10) (400 - 10 * real (Suc j)) (Suc (82 + j)) (10 * real (Suc j)) True False"
    using j(2) by (simp add: exRound_moved [OF j(1)]) (auto simp add: min_def max_def exRound_def exState_def)
  have nh: "\<not> hit (exRound 10 (j < 10) (400 - 10 * real (Suc j)) (Suc (82 + j)) (10 * real (Suc j)) True False)"
    by (simp add: exRound_hit) (insert j(2), argo)
  have t: "tick exFrame (exRound 10 (j < 10) (400 - 10 * real j) (82 + j) (10 * real j) True False) =
      (exRound 10 (Suc j < 10) (400 - 10 * real (Suc j)) (Suc (82 + j)) (10 * real (Suc j)) True False,
       if j = 9 then [mkTrial Drift_px (Num 100) ''px''] else [])"
    unfolding exRound_tick_miss [OF m nh] exRound_roundEnd
    by (cases "j < 9"; cases "j = 9") auto
  show ?case
    unfolding replicate_snoc using Suc t
    by (auto simp add: prod_eq_iff run_append_fst run_append_snd)
qed


text \<open>
  Against C2 as stated: in the example round with 82 frames without a key and then the
  left arrow held, the round ends in frame 92 with a drift of 100; in frame 98, with
  the ball's top edge far below \<open>H\<close> and the round not running, the paddle comes over
  the ball and the frame emits the latency and accuracy trials.
\<close>

theorem contact_after_round_end_counterexample:
  "no_reset (replicate 82 (Frame exFrame) @ KeyDown ''ArrowLeft'' exDraws 0 #
             replicate 15 (Frame exFrame)) \<and>
   trials_of Drift_px
     (snd (run (replicate 82 (Frame exFrame) @ KeyDown ''ArrowLeft'' exDraws 0 #
                replicate 15 (Frame exFrame)) exStart)) =
     [mkTrial Drift_px (Num 100) ''px''] \<and>
   \<not> runningRef
     (fst (run (replicate 82 (Frame exFrame) @ KeyDown ''ArrowLeft'' exDraws 0 #
                replicate 15 (Frame exFrame)) exStart)) \<and>
   H < ball_y (ball (fst (tick exFrame
     (fst (run (replicate 82 (Frame exFrame) @ KeyDown ''ArrowLeft'' exDraws 0 #
                replicate 15 (Frame exFrame)) exStart))))) - ball_r \<and>
   snd (tick exFrame
     (fst (run (replicate 82 (Frame exFrame) @ KeyDown ''ArrowLeft'' exDraws 0 #
                replicate 15 (Frame exFrame)) exStart))) =
     [mkTrial Latency_ms (Num 1990) ''ms'', mkTrial Accuracy_px (Num (572 / 5)) ''px'']"
proof -
  let ?T = "replicate 82 (Frame exFrame) @ KeyDown ''ArrowLeft'' exDraws 0 #
             replicate 15 (Frame exFrame)"
  have r: "run ?T exStart =
      (exRound 10 False 250 97 150 True False, [mkTrial Drift_px (Num 100) ''px''])"
    using idle_fall [of 82] left_past_round_end [of 15]
    by (simp add: prod_eq_iff run_append_fst run_append_snd run_Cons_fst run_Cons_snd
        exStart_exState exState_down_left exState_exRound [symmetric]
        del: run.simps(2) replicate.simps)
  have nr: "no_reset ?T"
    using no_reset_frames by (simp add: no_reset_append no_reset_Cons del: replicate.simps)
  have m: "moved exFrame (exRound 10 False 250 97 150 True False) =
      exRound 10 False 240 98 160 True False"
    by (simp add: exRound_moved)
  have h: "hit (exRound 10 False 240 98 160 True False)"
    by (simp add: exRound_hit)
  have c: "\<not> (393 < (43 / 10) * real (98 :: nat) \<and> False)" by simp
  have t: "(10 :: real) \<noteq> 0" by simp
  have out: "snd (tick exFrame (exRound 10 False 250 97 150 True False)) =
      [mkTrial Latency_ms (Num 1990) ''ms'', mkTrial Accuracy_px (Num (572 / 5)) ''px'']"
    using exRound_tick_hit(1) [OF m h t c] by simp
  have y: "H < ball_y (ball (fst (tick exFrame (exRound 10 False 250 97 150 True False)))) - ball_r"
    by (simp add: tick_unfold exRound_fields m roundEnd_fields paddleHit_fields ball_r_eq H_def)
  show ?thesis
    using nr out y
    by (simp add: r trials_of_def mkTrial_def exRound_fields del: run.simps(2) replicate.simps)
qed

text \<open>Frames with the right arrow held, from the paddle at 120: it slides to 680, clear of the ball.\<close>

lemma right_from_120:
  "k \<le> 91 \<Longrightarrow>
     run (replicate k (Frame exFrame)) (exRound t0 True 120 0 0 False True) =
       (exRound t0 True (min 680 (120 + 10 * real k)) k (min 560 (10 * real k)) False True, [])"
proof (induction k)
  case 0
  then show ?case by simp
next
  case (Suc k)
  have k: "k < 100" "real k \<le> 90" using Suc.prems by simp_all
  have m: "moved exFrame (exRound t0 True (min 680 (120 + 10 * real k)) k (min 560 (10 * real k)) False True) =
           exRound t0 True (min 680 (120 + 10 * real (Suc k))) (Suc k) (min 560 (10 * real (Suc k))) False True"
    by (simp add: exRound_moved [OF k(1)]) (auto simp add: min_def max_def exRound_def exState_def)
  have nh: "\<not> hit (exRound t0 True (min 680 (120 + 10 * real (Suc k))) (Suc k) (min 560 (10 * real (Suc k))) False True)"
    by (simp add: exRound_hit min_def) argo
  have "tick exFrame (exRound t0 True (min 680 (120 + 10 * real k)) k (min 560 (10 * real k)) False True) =
      (exRound t0 True (min 680 (120 + 10 * real (Suc k))) (Suc k) (min 560 (10 * real (Suc k))) False True, [])"
    unfolding exRound_tick_miss [OF m nh] exRound_roundEnd using k(2) by simp
  then show ?case
    unfolding replicate_snoc using Suc
    by (simp add: prod_eq_iff run_append_fst run_append_snd)
qed

lemma right_from_120_last:
  "tick exFrame (exRound t0 True 680 91 560 False True) =
     (exRound t0 False 680 92 560 False True, [mkTrial Drift_px (Num 560) ''px''])"
proof -
  have m: "moved exFrame (exRound t0 True 680 91 560 False True) = exRound t0 True 680 92 560 False True"
    by (simp add: exRound_moved)
  have nh: "\<not> hit (exRound t0 True 680 92 560 False True)"
    by (simp add: exRound_hit)
  show ?thesis
    unfolding exRound_tick_miss [OF m nh] exRound_roundEnd by simp
qed

text \<open>
  C7. The latency and accuracy posted with a drift are not always those of its round.
  In the example round the left arrow is held and the ball hits the paddle in frame 79
  (latency 1990, accuracy 58.8); the Space key then starts a new round, in which the
  paddle slides right, the ball misses it and the round ends with a drift of 560. The
  holders still hold the first round's values, and the dashboard posts
  \<open>[{1990, 58.8, 560}]\<close> for a round without a contact, not \<open>[{300, 80, 560}]\<close>.
\<close>

theorem stale_contact_posted_for_round_without_contact:
  "snd (run (KeyDown ''ArrowLeft'' exDraws 0 # replicate 79 (Frame exFrame)) exStart) =
     [mkTrial Latency_ms (Num 1990) ''ms'', mkTrial Accuracy_px (Num (294 / 5)) ''px''] \<and>
   snd (run (KeyDown '' '' exDraws 2500 # KeyUp ''ArrowLeft'' # KeyDown ''ArrowRight'' exDraws 0 #
             replicate 92 (Frame exFrame))
          (fst (run (KeyDown ''ArrowLeft'' exDraws 0 # replicate 79 (Frame exFrame)) exStart))) =
     [mkTrial Drift_px (Num 560) ''px''] \<and>
   snd (submitAll
          (map (\<lambda>tr. (tr, True))
             (snd (run ((KeyDown ''ArrowLeft'' exDraws 0 # replicate 79 (Frame exFrame)) @
                        KeyDown '' '' exDraws 2500 # KeyUp ''ArrowLeft'' #
                        KeyDown ''ArrowRight'' exDraws 0 # replicate 92 (Frame exFrame))
                     exStart)))
          (initPage\<lparr>sessionId := Some 7\<rparr>, \<lparr>lastLatency = None, lastAccuracy = None\<rparr>)) =
     [\<lparr>req_method = ''POST'', req_path = TrialsPath 7,
       req_body = JsonTrials [\<lparr>latency = Num 1990, accuracy = Num (294 / 5), drift = Num 560\<rparr>]\<rparr>]"
proof -
  let ?A = "KeyDown ''ArrowLeft'' exDraws 0 # replicate 79 (Frame exFrame)"
  let ?B = "KeyDown '' '' exDraws 2500 # KeyUp ''ArrowLeft'' # KeyDown ''ArrowRight'' exDraws 0 #
             replicate 92 (Frame exFrame)"
  have r79: "replicate 79 (Frame exFrame) = replicate 78 (Frame exFrame) @ [Frame exFrame]"
    using replicate_snoc [of 78 "Frame exFrame"] by simp
  have r92: "replicate 92 (Frame exFrame) = replicate 91 (Frame exFrame) @ [Frame exFrame]"
    using replicate_snoc [of 91 "Frame exFrame"] by simp
  have s78: "run (replicate 78 (Frame exFrame)) (exState 400 0 0 True False) =
      (exRound 10 True 120 78 280 True False, [])"
    using slide_left [of 78] by (simp add: exState_exRound del: replicate.simps)
  have m: "moved exFrame (exRound 10 True 120 78 280 True False) = exRound 10 True 120 79 280 True False"
    by (simp add: exRound_moved)
  have h: "hit (exRound 10 True 120 79 280 True False)"
    by (simp add: exRound_hit)
  have c: "\<not> (393 < (43 / 10) * real (79 :: nat) \<and> True)" by simp
  have t: "(10 :: real) \<noteq> 0" by simp
  have outA: "snd (run ?A exStart) =
      [mkTrial Latency_ms (Num 1990) ''ms'', mkTrial Accuracy_px (Num (294 / 5)) ''px'']"
    unfolding r79 using s78 exRound_tick_hit(1) [OF m h t c]
    by (simp add: run_Cons_snd run_Cons_fst run_append_snd run_append_fst exStart_exState
        exState_down_left del: run.simps(2) replicate.simps)
  define sa where "sa = fst (run ?A exStart)"
  have sA: "resetRound exDraws 2500 sa = exRound 2500 True 120 0 0 True False"
    unfolding sa_def r79 using s78 exRound_tick_hit(2) [OF m h t c, of 2500]
    by (simp add: run_Cons_fst run_append_fst exStart_exState exState_down_left
        del: run.simps(2) replicate.simps)
  have "snd (run ?B sa) = [mkTrial Drift_px (Num 560) ''px'']"
    unfolding r92 using right_from_120 [of 91 2500] right_from_120_last [of 2500]
    by (simp add: run_Cons_snd run_Cons_fst run_append_snd run_append_fst down_def [of "'' ''"]
        sA exRound_keys del: run.simps(2) replicate.simps)
  then have outB: "snd (run ?B (fst (run ?A exStart))) = [mkTrial Drift_px (Num 560) ''px'']"
    by (simp only: sa_def)
  have all: "snd (run (?A @ ?B) exStart) =
      [mkTrial Latency_ms (Num 1990) ''ms'', mkTrial Accuracy_px (Num (294 / 5)) ''px'',
       mkTrial Drift_px (Num 560) ''px'']"
    by (simp only: run_append_snd outA outB) simp
  show ?thesis
    unfolding all outA outB
    by (simp add: submitTrial_def mkTrial_def Let_def)
qed

end
